theory Spec2Isabelle
  imports Main "HOL-Library.Word"
begin

unbundle bit_operations_syntax

section \<open>The process and its operating system\<close>

text \<open>
  The program is a single process that talks to the operating system through a handful
  of calls. The model is a state record \<open>world\<close>: the program's global variables, what
  it has written to its two output streams, the kernel's table of its unreaped children
  and of the directories it made, the value of \<open>errno\<close>, and an environment \<open>os\<close> that
  answers every call. The answer to the k-th call of a primitive is a function of k, so
  a run is a function of the environment alone and any pattern of failures can be stated.
\<close>

type_synonym u64 = "64 word"

text \<open>
  Values of C type \<open>double\<close> are kept as the expression the program computed them with:
  the conversion \<open>(double)x\<close> of an unsigned 64-bit value, a division, a subtraction, the
  constant \<open>0.0\<close> and a draw of \<open>drand48\<close>. No rounding is interpreted.
\<close>

datatype dbl =
    D_zero
  | D_of_u64 u64
  | D_div dbl dbl
  | D_sub dbl dbl
  | D_drand48 int nat

text \<open>One line of standard output, by the \<open>printf\<close> call of \<open>measure\<close> that writes it.\<close>

datatype out_line =
    Line_label string
  | Line_iters u64
  | Line_mean_ns_total dbl
  | Line_mean_ns_overhead dbl
  | Line_mean_ns_subtracted dbl
  | Line_blank

text \<open>One line of standard error: a fixed text, or \<open>perror\<close>'s prefix with the \<open>errno\<close> it reports.\<close>

datatype err_line =
    Err_text string
  | Err_perror string int

text \<open>The answer of the system to one call: failure with an \<open>errno\<close>, or success with a value.\<close>

datatype 'a sys = Fail int | Done 'a

record os =
  clock_gettime_res :: "nat \<Rightarrow> (nat \<times> nat) sys"
  fork_res :: "nat \<Rightarrow> nat sys"
  waitpid_intr :: "nat \<Rightarrow> bool"
  waitpid_status :: "nat \<Rightarrow> int"
  nanosleep_res :: "nat \<Rightarrow> unit sys"
  getppid_res :: int
  system_res :: "nat \<Rightarrow> int sys"
  mkdtemp_res :: "nat \<Rightarrow> string sys"
  rmdir_fault :: "nat \<Rightarrow> int option"
  access_x_res :: "string \<Rightarrow> unit sys"
  open_res :: "nat \<Rightarrow> nat sys"
  malloc_ok :: "nat \<Rightarrow> bool"
  exec_res :: "nat \<Rightarrow> unit sys"

record world =
  os :: os
  clock_calls :: nat
  fork_calls :: nat
  waitpid_calls :: nat
  nanosleep_calls :: nat
  system_calls :: nat
  mkdtemp_calls :: nat
  rmdir_calls :: nat
  drand48_calls :: nat
  open_calls :: nat
  malloc_calls :: nat
  exec_calls :: nat
  errno :: int
  children :: "int list"
  peak_children :: nat
  dirs :: "string list"
  sleeps :: "(nat \<times> nat) list"
  fds :: "(int \<times> string) list"
  stdout :: "out_line list"
  stderr :: "err_line list"
  seed48 :: int
  sink_u64 :: u64
  sink_double :: dbl
  last_child :: int
  ready_zombie :: int
  TRUE_PATH :: string
  workdir :: string

text \<open>
  A computation either returns a value, or the process ends inside it with an exit
  status (\<open>exit\<close>, \<open>_exit\<close>). Both carry the world they leave behind.
\<close>

datatype 'a outcome = Stop int world | Ret 'a world

definition bind :: "'a outcome \<Rightarrow> ('a \<Rightarrow> world \<Rightarrow> 'b outcome) \<Rightarrow> 'b outcome" where
  "bind m f = (case m of Stop c w \<Rightarrow> Stop c w | Ret a w \<Rightarrow> f a w)"

subsection \<open>Constants of the system headers\<close>

text \<open>The values of \<open>errno.h\<close> on Linux; the program names only \<open>ECHILD\<close>.\<close>

definition ECHILD :: int where "ECHILD = 10"
definition EINTR :: int where "EINTR = 4"
definition ENOENT :: int where "ENOENT = 2"
definition EINVAL :: int where "EINVAL = 22"

subsection \<open>The system calls\<close>

text \<open>\<open>clock_gettime(CLOCK_MONOTONIC, &t)\<close>: the return value and the \<open>timespec\<close> it fills.\<close>

definition clock_gettime :: "world \<Rightarrow> int \<times> (nat \<times> nat) \<times> world" where
  "clock_gettime w =
     (let k = clock_calls w; w1 = w\<lparr>clock_calls := Suc k\<rparr> in
      case clock_gettime_res (os w) k of
        Fail e \<Rightarrow> (- 1, (0, 0), w1\<lparr>errno := e\<rparr>)
      | Done t \<Rightarrow> (0, t, w1))"

text \<open>
  \<open>fork()\<close>: \<open>Done 0\<close> is the answer the new child sees (it has no children of its
  own); \<open>Done p\<close> with a positive \<open>p\<close> is the parent's, whose table of unreaped children
  grows by \<open>p\<close>. \<open>peak_children\<close> is the largest size that table has had.
\<close>

definition sys_fork :: "world \<Rightarrow> int \<times> world" where
  "sys_fork w =
     (let k = fork_calls w; w1 = w\<lparr>fork_calls := Suc k\<rparr> in
      case fork_res (os w) k of
        Fail e \<Rightarrow> (- 1, w1\<lparr>errno := e\<rparr>)
      | Done p \<Rightarrow>
          if p = 0 then (0, w1\<lparr>children := []\<rparr>)
          else (int p, w1\<lparr>children := children w @ [int p],
                           peak_children := max (peak_children w) (Suc (length (children w)))\<rparr>))"

text \<open>
  \<open>waitpid(pid, &st, 0)\<close>: with a positive \<open>pid\<close> it waits for that child to end and
  removes it from the table, and fails with \<open>ECHILD\<close> when \<open>pid\<close> is not an unreaped
  child; with any other \<open>pid\<close> it takes the first child of the table (process groups are
  not modelled). With the options 0 the only other failure is \<open>EINTR\<close>, a signal
  interrupting the wait, which the environment decides.
  The result is the return value and the status stored through \<open>st\<close>.
\<close>

definition sys_waitpid :: "int \<Rightarrow> world \<Rightarrow> (int \<times> int) \<times> world" where
  "sys_waitpid pid w =
     (let k = waitpid_calls w; w1 = w\<lparr>waitpid_calls := Suc k\<rparr> in
      if waitpid_intr (os w) k then ((- 1, 0), w1\<lparr>errno := EINTR\<rparr>)
      else if 0 < pid then
        (if pid \<in> set (children w)
         then ((pid, waitpid_status (os w) k), w1\<lparr>children := remove1 pid (children w)\<rparr>)
         else ((- 1, 0), w1\<lparr>errno := ECHILD\<rparr>))
      else
        (case children w of
           [] \<Rightarrow> ((- 1, 0), w1\<lparr>errno := ECHILD\<rparr>)
         | c # cs \<Rightarrow> ((c, waitpid_status (os w) k), w1\<lparr>children := cs\<rparr>)))"

text \<open>
  \<open>nanosleep(&ts, NULL)\<close>: the interval asked for (seconds, nanoseconds) is noted in
  \<open>sleeps\<close>; how long the process really slept is not modelled.
\<close>

definition sys_nanosleep :: "nat \<times> nat \<Rightarrow> world \<Rightarrow> int \<times> world" where
  "sys_nanosleep ts w =
     (let k = nanosleep_calls w;
          w1 = w\<lparr>nanosleep_calls := Suc k, sleeps := sleeps w @ [ts]\<rparr> in
      case nanosleep_res (os w) k of
        Fail e \<Rightarrow> (- 1, w1\<lparr>errno := e\<rparr>)
      | Done u \<Rightarrow> (0, w1))"

definition sys_system :: "string \<Rightarrow> world \<Rightarrow> int \<times> world" where
  "sys_system cmd w =
     (let k = system_calls w; w1 = w\<lparr>system_calls := Suc k\<rparr> in
      case system_res (os w) k of
        Fail e \<Rightarrow> (- 1, w1\<lparr>errno := e\<rparr>)
      | Done rc \<Rightarrow> (rc, w1))"

text \<open>
  \<open>mkdtemp(buf)\<close>: the template must end in six \<open>X\<close>; on success they are replaced by
  the six characters the system chose, the directory exists, and the result is its name.
  \<open>None\<close> is the null pointer.
\<close>

definition sys_mkdtemp :: "string \<Rightarrow> world \<Rightarrow> string option \<times> world" where
  "sys_mkdtemp template w =
     (let k = mkdtemp_calls w; w1 = w\<lparr>mkdtemp_calls := Suc k\<rparr>;
          n = length template in
      if n < 6 \<or> drop (n - 6) template \<noteq> ''XXXXXX'' then (None, w1\<lparr>errno := EINVAL\<rparr>)
      else
        case mkdtemp_res (os w) k of
          Fail e \<Rightarrow> (None, w1\<lparr>errno := e\<rparr>)
        | Done sfx \<Rightarrow>
            (let name = take (n - 6) template @ sfx in
             (Some name, w1\<lparr>dirs := name # dirs w\<rparr>)))"

definition sys_rmdir :: "string \<Rightarrow> world \<Rightarrow> int \<times> world" where
  "sys_rmdir name w =
     (let k = rmdir_calls w; w1 = w\<lparr>rmdir_calls := Suc k\<rparr> in
      case rmdir_fault (os w) k of
        Some e \<Rightarrow> (- 1, w1\<lparr>errno := e\<rparr>)
      | None \<Rightarrow>
          if name \<in> set (dirs w) then (0, w1\<lparr>dirs := remove1 name (dirs w)\<rparr>)
          else (- 1, w1\<lparr>errno := ENOENT\<rparr>))"

text \<open>\<open>access(path, X_OK)\<close>.\<close>

definition sys_access_x :: "string \<Rightarrow> world \<Rightarrow> int \<times> world" where
  "sys_access_x path w =
     (case access_x_res (os w) path of
        Fail e \<Rightarrow> (- 1, w\<lparr>errno := e\<rparr>)
      | Done u \<Rightarrow> (0, w))"

definition perror :: "string \<Rightarrow> world \<Rightarrow> world" where
  "perror s w = w\<lparr>stderr := stderr w @ [Err_perror s (errno w)]\<rparr>"

definition eprint :: "string \<Rightarrow> world \<Rightarrow> world" where
  "eprint s w = w\<lparr>stderr := stderr w @ [Err_text s]\<rparr>"

section \<open>gettimings.c: the clock\<close>

definition nsecs_now :: "world \<Rightarrow> u64 outcome" where
  "nsecs_now w =
     (case clock_gettime w of
        (r, (tv_sec, tv_nsec), w1) \<Rightarrow>
          if r \<noteq> 0 then Stop 1 (perror ''clock_gettime'' w1)
          else Ret (of_nat tv_sec * 1000000000 + of_nat tv_nsec) w1)"

section \<open>gettimings.c: the measurement harness\<close>

text \<open>
  A callback is a C function \<open>void f(void)\<close> working on the process state. The two
  optional callbacks of \<open>measure\<close> are pointers that may be null (\<open>None\<close>); the action
  is called unconditionally, so it is a callback proper.
\<close>

type_synonym action_fn = "world \<Rightarrow> unit outcome"

definition call_opt :: "action_fn option \<Rightarrow> world \<Rightarrow> unit outcome" where
  "call_opt f w = (case f of None \<Rightarrow> Ret () w | Some g \<Rightarrow> g w)"

text \<open>
  \<open>for (uint64_t i = lo; i < n; ++i) body\<close>, the body working on the loop's local
  variables \<open>a\<close> and on the world. The index is a 64-bit word as in the source.
\<close>

function for_u64 :: "u64 \<Rightarrow> u64 \<Rightarrow> ('a \<Rightarrow> world \<Rightarrow> 'a outcome) \<Rightarrow> 'a \<Rightarrow> world \<Rightarrow> 'a outcome" where
  "for_u64 i n body a w =
     (if i < n then
        (case body a w of
           Stop c w' \<Rightarrow> Stop c w'
         | Ret a' w' \<Rightarrow> for_u64 (i + 1) n body a' w')
      else Ret a w)"
  by pat_completeness auto
termination
proof (relation "measure (\<lambda>(i, n, body, a, w). unat n - unat i)")
  show "wf (measure (\<lambda>(i, n, body, a, w). unat n - unat i))"
    by simp
next
  fix i n :: u64 and body :: "'a \<Rightarrow> world \<Rightarrow> 'a outcome" and a :: 'a and w :: world
    and a' :: 'a and w' :: world
  assume "i < n"
  then have lt: "unat i < unat n"
    by (simp add: word_less_nat_alt)
  moreover have "unat n < 2 ^ 64"
    using unsigned_less [of n] by simp
  ultimately have "unat i + unat (1 :: u64) < 2 ^ LENGTH(64)"
    by simp
  then have "unat (i + 1) = unat i + unat (1 :: u64)"
    by (simp only: unat_add_lem)
  with lt show "((i + 1, n, body, a', w'), (i, n, body, a, w))
      \<in> measure (\<lambda>(i, n, body, a, w). unat n - unat i)"
    by simp
qed

declare for_u64.simps [simp del]

text \<open>
  The bodies of the three loops of \<open>measure\<close>. \<open>COMPILER_BARRIER()\<close> stands for an
  empty \<open>asm\<close> statement: it emits no instruction and leaves the state as it is, so it
  has no counterpart here. The warm-up loop has no local variable; the other two carry
  their accumulator.
\<close>

definition warm_cycle :: "action_fn option \<Rightarrow> action_fn \<Rightarrow> action_fn option \<Rightarrow>
    unit \<Rightarrow> world \<Rightarrow> unit outcome" where
  "warm_cycle setup_each action teardown_each u w =
     bind (call_opt setup_each w) (\<lambda>_ w.
     bind (action w) (\<lambda>_ w.
     bind (call_opt teardown_each w) (\<lambda>_ w.
     Ret () w)))"

definition timed_cycle :: "action_fn option \<Rightarrow> action_fn \<Rightarrow> action_fn option \<Rightarrow>
    u64 \<Rightarrow> world \<Rightarrow> u64 outcome" where
  "timed_cycle setup_each action teardown_each total_ns w =
     bind (call_opt setup_each w) (\<lambda>_ w.
     bind (nsecs_now w) (\<lambda>t0 w.
     bind (action w) (\<lambda>_ w.
     bind (nsecs_now w) (\<lambda>t1 w.
     bind (call_opt teardown_each w) (\<lambda>_ w.
     Ret (total_ns + (t1 - t0)) w)))))"

definition overhead_cycle :: "action_fn option \<Rightarrow> action_fn option \<Rightarrow>
    u64 \<Rightarrow> world \<Rightarrow> u64 outcome" where
  "overhead_cycle setup_each teardown_each total_o w =
     bind (call_opt setup_each w) (\<lambda>_ w.
     bind (nsecs_now w) (\<lambda>t0 w.
     bind (nsecs_now w) (\<lambda>t1 w.
     bind (call_opt teardown_each w) (\<lambda>_ w.
     Ret (total_o + (t1 - t0)) w))))"

text \<open>The three loops of \<open>measure\<close>, each with the local variables it starts from.\<close>

definition warm_up :: "action_fn option \<Rightarrow> action_fn \<Rightarrow> action_fn option \<Rightarrow> u64 \<Rightarrow>
    world \<Rightarrow> unit outcome" where
  "warm_up setup_each action teardown_each iters w =
     (let warm = iters div 10 + 1 in
      for_u64 0 warm (warm_cycle setup_each action teardown_each) () w)"

definition timed_loop :: "action_fn option \<Rightarrow> action_fn \<Rightarrow> action_fn option \<Rightarrow> u64 \<Rightarrow>
    world \<Rightarrow> u64 outcome" where
  "timed_loop setup_each action teardown_each iters w =
     for_u64 0 iters (timed_cycle setup_each action teardown_each) 0 w"

definition overhead_loop :: "action_fn option \<Rightarrow> action_fn option \<Rightarrow> u64 \<Rightarrow>
    world \<Rightarrow> u64 outcome" where
  "overhead_loop setup_each teardown_each iters w =
     for_u64 0 iters (overhead_cycle setup_each teardown_each) 0 w"

definition measure_report :: "string \<Rightarrow> u64 \<Rightarrow> bool \<Rightarrow> dbl \<Rightarrow> dbl \<Rightarrow> out_line list" where
  "measure_report label iters subtract_overhead mean_ns overhead_ns =
     [Line_label label, Line_iters iters, Line_mean_ns_total mean_ns]
     @ (if subtract_overhead
        then [Line_mean_ns_overhead overhead_ns,
              Line_mean_ns_subtracted (D_sub mean_ns overhead_ns)]
        else [])
     @ [Line_blank]"

text \<open>
  The function \<open>measure\<close> of the source; the name \<open>measure\<close> is taken in HOL, hence the
  suffix.
\<close>

definition measure_c :: "string \<Rightarrow> action_fn option \<Rightarrow> action_fn \<Rightarrow> action_fn option \<Rightarrow>
    u64 \<Rightarrow> bool \<Rightarrow> world \<Rightarrow> unit outcome" where
  "measure_c label setup_each action teardown_each iters subtract_overhead w =
     (if iters = 0 then Stop 2 (eprint ''iters must be > 0'' w)
      else
        bind (warm_up setup_each action teardown_each iters w)
          (\<lambda>_ w.
        bind (timed_loop setup_each action teardown_each iters w)
          (\<lambda>total_ns w.
        let mean_ns = D_div (D_of_u64 total_ns) (D_of_u64 iters) in
        bind (if subtract_overhead
              then bind (overhead_loop setup_each teardown_each iters w)
                     (\<lambda>total_o w. Ret (D_div (D_of_u64 total_o) (D_of_u64 iters)) w)
              else Ret D_zero w)
          (\<lambda>overhead_ns w.
        Ret () (w\<lparr>stdout := stdout w
                   @ measure_report label iters subtract_overhead mean_ns overhead_ns\<rparr>)))))"

section \<open>gettimings.c: the scenarios\<close>

text \<open>1) \<open>empty_function\<close> is a compiler barrier and nothing else.\<close>

definition act_call_empty :: action_fn where
  "act_call_empty w = Ret () w"

text \<open>
  2) \<open>sink_double = drand48()\<close>: the draw is named by the seed of the generator and its
  position in the sequence.
\<close>

definition act_drand48 :: action_fn where
  "act_drand48 w =
     Ret () (w\<lparr>sink_double := D_drand48 (seed48 w) (drand48_calls w),
               drand48_calls := Suc (drand48_calls w)\<rparr>)"

text \<open>3) \<open>sink_u64 = (uint64_t)getppid()\<close>.\<close>

definition act_getppid :: action_fn where
  "act_getppid w = Ret () (w\<lparr>sink_u64 := word_of_int (getppid_res (os w))\<rparr>)"

text \<open>4) \<open>fork()\<close> returning in the parent; the teardown reaps the child.\<close>

definition act_fork_parent_return :: action_fn where
  "act_fork_parent_return w =
     (case sys_fork w of
        (p, w1) \<Rightarrow>
          if p < 0 then Stop 1 (perror ''fork'' w1)
          else if p = 0 then Stop 0 w1
          else Ret () (w1\<lparr>last_child := p, sink_u64 := sink_u64 w1 XOR word_of_int p\<rparr>))"

definition teardown_wait_for_last_child :: action_fn where
  "teardown_wait_for_last_child w =
     (if 0 < last_child w then
        (case sys_waitpid (last_child w) w of
           ((r, st), w1) \<Rightarrow>
             if r < 0 then Stop 1 (perror ''waitpid'' w1)
             else Ret () (w1\<lparr>last_child := - 1\<rparr>))
      else Ret () w)"

text \<open>5) \<open>waitpid\<close> on a child that has already ended.\<close>

definition setup_waitpid_ready :: action_fn where
  "setup_waitpid_ready w =
     (case sys_fork w of
        (p, w1) \<Rightarrow>
          if p < 0 then Stop 1 (perror ''fork'' w1)
          else if p = 0 then Stop 0 w1
          else (case sys_nanosleep (0, 2 * 1000 * 1000) w1 of
                  (r, w2) \<Rightarrow> Ret () (w2\<lparr>ready_zombie := p\<rparr>)))"

definition act_waitpid_ready :: action_fn where
  "act_waitpid_ready w =
     (case sys_waitpid (ready_zombie w) w of
        ((r, st), w1) \<Rightarrow>
          if r \<noteq> ready_zombie w1 then Stop 1 (perror ''waitpid'' w1)
          else Ret () (w1\<lparr>sink_u64 := sink_u64 w1 XOR word_of_int r\<rparr>))"

definition teardown_wait_ready :: action_fn where
  "teardown_wait_ready w =
     (if 0 < ready_zombie w then
        (case sys_waitpid (ready_zombie w) w of
           ((r, st), w1) \<Rightarrow>
             if r < 0 \<and> errno w1 \<noteq> ECHILD then Stop 1 (perror ''waitpid'' w1)
             else Ret () (w1\<lparr>ready_zombie := - 1\<rparr>))
      else Ret () w)"

text \<open>6) \<open>fork()\<close>, the child ends, the parent reaps it in the same action.\<close>

definition act_fork_child_exit_wait :: action_fn where
  "act_fork_child_exit_wait w =
     (case sys_fork w of
        (p, w1) \<Rightarrow>
          if p < 0 then Stop 1 (perror ''fork'' w1)
          else if p = 0 then Stop 0 w1
          else (case sys_waitpid p w1 of
                  ((r, st), w2) \<Rightarrow>
                    if r < 0 then Stop 1 (perror ''waitpid'' w2)
                    else Ret () (w2\<lparr>sink_u64 := sink_u64 w2 XOR word_of_int st\<rparr>)))"

text \<open>7) \<open>system(TRUE_PATH)\<close>.\<close>

definition act_system_true :: action_fn where
  "act_system_true w =
     (case sys_system (TRUE_PATH w) w of
        (rc, w1) \<Rightarrow> if rc = - 1 then Stop 1 (perror ''system'' w1) else Ret () w1)"

text \<open>8) \<open>mkdtemp\<close> and \<open>rmdir\<close>.\<close>

definition dir_template :: string where
  "dir_template = ''/tmp/gtXXXXXX''"

definition setup_mkdir_rmdir :: action_fn where
  "setup_mkdir_rmdir w = Ret () (w\<lparr>workdir := dir_template\<rparr>)"

definition act_mkdir_rmdir :: action_fn where
  "act_mkdir_rmdir w =
     (case sys_mkdtemp (workdir w) w of
        (None, w1) \<Rightarrow> Stop 1 (perror ''mkdtemp'' w1)
      | (Some buf, w1) \<Rightarrow>
          (case sys_rmdir buf w1 of
             (r, w2) \<Rightarrow> if r \<noteq> 0 then Stop 1 (perror ''rmdir'' w2) else Ret () w2))"

section \<open>gettimings.c: the driver\<close>

definition usage :: "string \<Rightarrow> world \<Rightarrow> world" where
  "usage prog w = eprint (''Usage: '' @ prog @ '' <scenario 1..8>'') w"

text \<open>
  \<open>atoi\<close> as the C library computes it: white space is skipped, one sign is read, then
  the longest run of decimal digits; whatever follows is ignored and no digit at all
  gives 0. A value beyond \<open>long\<close> is clamped by \<open>strtol\<close> and the result is cut to the
  32 bits of \<open>int\<close> (glibc on a 64-bit target; the C standard leaves that case open).
\<close>

definition isspace :: "char \<Rightarrow> bool" where
  "isspace c = (c = CHR '' '' \<or> (9 \<le> (of_char c :: nat) \<and> (of_char c :: nat) \<le> 13))"

definition isdigit :: "char \<Rightarrow> bool" where
  "isdigit c = (48 \<le> (of_char c :: nat) \<and> (of_char c :: nat) \<le> 57)"

definition digit_val :: "char \<Rightarrow> int" where
  "digit_val c = int (of_char c) - 48"

definition atoi :: "string \<Rightarrow> int" where
  "atoi s =
     (let s1 = dropWhile isspace s;
          neg = (case s1 of [] \<Rightarrow> False | c # r \<Rightarrow> c = CHR ''-'');
          s2 = (case s1 of [] \<Rightarrow> [] | c # r \<Rightarrow> if c = CHR ''-'' \<or> c = CHR ''+'' then r else s1);
          v = foldl (\<lambda>acc c. acc * 10 + digit_val c) 0 (takeWhile isdigit s2);
          l = max (- (2 ^ 63)) (min (2 ^ 63 - 1) (if neg then - v else v))
      in sint (word_of_int l :: 32 word))"

text \<open>
  \<open>argv[0]\<close> is the null pointer when the argument vector is empty; glibc prints a null
  string as \<open>(null)\<close>.
\<close>

definition argv0 :: "string list \<Rightarrow> string" where
  "argv0 argv = (case argv of [] \<Rightarrow> ''(null)'' | p # r \<Rightarrow> p)"

definition resolve_true_path :: "world \<Rightarrow> world" where
  "resolve_true_path w =
     (case sys_access_x (TRUE_PATH w) w of
        (r1, w1) \<Rightarrow>
          if r1 \<noteq> 0 then
            (case sys_access_x ''/usr/bin/true'' w1 of
               (r2, w2) \<Rightarrow> if r2 = 0 then w2\<lparr>TRUE_PATH := ''/usr/bin/true''\<rparr> else w2)
          else w1)"

definition srand48 :: "int \<Rightarrow> world \<Rightarrow> world" where
  "srand48 seedval w = w\<lparr>seed48 := seedval, drand48_calls := 0\<rparr>"

text \<open>After a \<open>measure\<close> that returns, \<open>main\<close> leaves the \<open>switch\<close> and returns 0.\<close>

definition break_return0 :: "unit outcome \<Rightarrow> int outcome" where
  "break_return0 m = bind m (\<lambda>_ w. Ret 0 w)"

text \<open>
  The result of \<open>main\<close> is \<open>Ret c\<close> when \<open>main\<close> returns \<open>c\<close>, and \<open>Stop c\<close> when the
  process ended inside a call. Either way \<open>c\<close> is the exit status of the process.
\<close>

definition main :: "string list \<Rightarrow> world \<Rightarrow> int outcome" where
  "main argv w =
     (if length argv \<noteq> 2 then Ret 2 (usage (argv0 argv) w)
      else
        let which = atoi (argv ! 1);
            w = resolve_true_path w;
            w = srand48 0xC0FFEE w
        in
          if which = 1 then
            break_return0 (measure_c ''scenario_1_empty_function_call''
              None act_call_empty None 200000 True w)
          else if which = 2 then
            break_return0 (measure_c ''scenario_2_drand48''
              None act_drand48 None 200000 True w)
          else if which = 3 then
            break_return0 (measure_c ''scenario_3_getppid''
              None act_getppid None 200000 True w)
          else if which = 4 then
            break_return0 (measure_c ''scenario_4_fork_parent_return''
              None act_fork_parent_return (Some teardown_wait_for_last_child) 8000 True w)
          else if which = 5 then
            break_return0 (measure_c ''scenario_5_waitpid_already_terminated''
              (Some setup_waitpid_ready) act_waitpid_ready (Some teardown_wait_ready)
              2000 True w)
          else if which = 6 then
            break_return0 (measure_c ''scenario_6_fork_child_exit_waitpid''
              None act_fork_child_exit_wait None 4000 False w)
          else if which = 7 then
            break_return0 (measure_c ''scenario_7_system_true''
              None act_system_true None 2500 False w)
          else if which = 8 then
            break_return0 (measure_c ''scenario_8_mkdir_rmdir''
              (Some setup_mkdir_rmdir) act_mkdir_rmdir None 20000 True w)
          else Ret 2 (usage (argv0 argv) w))"

definition exit_status :: "int outcome \<Rightarrow> int" where
  "exit_status m = (case m of Stop c w \<Rightarrow> c | Ret c w \<Rightarrow> c)"

definition final_world :: "'a outcome \<Rightarrow> world" where
  "final_world m = (case m of Stop c w \<Rightarrow> w | Ret a w \<Rightarrow> w)"

text \<open>The process as the system starts it: the initial values of the static variables.\<close>

definition initial_world :: "os \<Rightarrow> world" where
  "initial_world env =
     \<lparr>os = env, clock_calls = 0, fork_calls = 0, waitpid_calls = 0, nanosleep_calls = 0,
      system_calls = 0, mkdtemp_calls = 0, rmdir_calls = 0, drand48_calls = 0,
      open_calls = 0, malloc_calls = 0, exec_calls = 0, errno = 0, children = [],
      peak_children = 0, dirs = [], sleeps = [], fds = [], stdout = [], stderr = [], seed48 = 0,
      sink_u64 = 0, sink_double = D_zero, last_child = - 1, ready_zombie = - 1,
      TRUE_PATH = ''/bin/true'', workdir = []\<rparr>"

section \<open>fork_run.c: the process-spawning helper\<close>

text \<open>
  The helper forks, so its two functions are followed in the parent and in the child.
  In the child a successful \<open>exec\<close> replaces the program, a failed one is followed by
  \<open>_exit(127)\<close>, and writing through a null pointer ends it abnormally.
\<close>

datatype 'a fr =
    Fr_ret 'a world
  | Fr_exec "string option" "string list" world
  | Fr_exit int world
  | Fr_crash world

definition EBADF :: int where "EBADF = 9"

text \<open>\<open>open(path, O_WRONLY | O_CREAT | O_TRUNC, 0666)\<close>: the descriptor, or -1.\<close>

definition sys_open :: "string \<Rightarrow> world \<Rightarrow> int \<times> world" where
  "sys_open path w =
     (let k = open_calls w; w1 = w\<lparr>open_calls := Suc k\<rparr> in
      case open_res (os w) k of
        Fail e \<Rightarrow> (- 1, w1\<lparr>errno := e\<rparr>)
      | Done fd \<Rightarrow> (int fd, w1\<lparr>fds := (int fd, path) # fds w\<rparr>))"

definition sys_dup2 :: "int \<Rightarrow> int \<Rightarrow> world \<Rightarrow> int \<times> world" where
  "sys_dup2 oldfd newfd w =
     (case map_of (fds w) oldfd of
        None \<Rightarrow> (- 1, w\<lparr>errno := EBADF\<rparr>)
      | Some path \<Rightarrow> (newfd, w\<lparr>fds := (newfd, path) # filter (\<lambda>e. fst e \<noteq> newfd) (fds w)\<rparr>))"

definition sys_close :: "int \<Rightarrow> world \<Rightarrow> int \<times> world" where
  "sys_close fd w =
     (case map_of (fds w) fd of
        None \<Rightarrow> (- 1, w\<lparr>errno := EBADF\<rparr>)
      | Some path \<Rightarrow> (0, w\<lparr>fds := filter (\<lambda>e. fst e \<noteq> fd) (fds w)\<rparr>))"

definition sys_malloc :: "world \<Rightarrow> bool \<times> world" where
  "sys_malloc w = (malloc_ok (os w) (malloc_calls w), w\<lparr>malloc_calls := Suc (malloc_calls w)\<rparr>)"

text \<open>
  \<open>execl\<close> and \<open>execv\<close>: the path (\<open>None\<close> is a null pointer, which fails) and the
  argument vector. They return only when they fail.
\<close>

definition sys_exec :: "string option \<Rightarrow> string list \<Rightarrow> world \<Rightarrow> 'a fr + world" where
  "sys_exec path args w =
     (let k = exec_calls w; w1 = w\<lparr>exec_calls := Suc k\<rparr> in
      case path of
        None \<Rightarrow> Inr (w1\<lparr>errno := 14\<rparr>)
      | Some p \<Rightarrow>
          (case exec_res (os w) k of
             Fail e \<Rightarrow> Inr (w1\<lparr>errno := e\<rparr>)
           | Done u \<Rightarrow> Inl (Fr_exec path args w1)))"

definition dup2_if_open :: "int \<Rightarrow> int \<Rightarrow> world \<Rightarrow> world" where
  "dup2_if_open fd target w = (if 0 \<le> fd then snd (sys_dup2 fd target w) else w)"

definition close_if_open :: "int \<Rightarrow> world \<Rightarrow> world" where
  "close_if_open fd w = (if 0 \<le> fd then snd (sys_close fd w) else w)"












section \<open>Vocabulary of the statements\<close>

text \<open>
  The definitions of this section are not code of the program. They name what the
  theorems speak about: a loop as a number of rounds, one cycle of each phase as the
  specification describes it, and concrete systems and callbacks for the examples.
\<close>

subsection \<open>Loops and the cycles of the three phases\<close>

text \<open>\<open>iter k body\<close> runs the body \<open>k\<close> times, stopping where the body stops.\<close>

primrec iter :: "nat \<Rightarrow> ('a \<Rightarrow> world \<Rightarrow> 'a outcome) \<Rightarrow> 'a \<Rightarrow> world \<Rightarrow> 'a outcome" where
  "iter 0 body a w = Ret a w"
| "iter (Suc k) body a w = bind (body a w) (iter k body)"

text \<open>
  One cycle of each phase as the specification describes it, as a relation between the
  world before the cycle and the world after it. Each callback and each clock reading
  starts in the world the step before it has left, and each of them returns.
  \<open>runs_opt f w w'\<close>: the optional callback \<open>f\<close>, if present, runs from \<open>w\<close> and
  returns in \<open>w'\<close>; an absent one leaves the world as it is.
  A warm-up cycle is set-up, action, tear-down, with no clock reading.
  A timed cycle is set-up, the start reading, the action, the end reading, tear-down;
  \<open>ts\<close> is the pair of the two readings.
  An overhead cycle is set-up, the two readings one directly after the other, tear-down:
  no action runs.
\<close>

definition runs_opt :: "action_fn option \<Rightarrow> world \<Rightarrow> world \<Rightarrow> bool" where
  "runs_opt f w w' = (case f of None \<Rightarrow> w' = w | Some g \<Rightarrow> g w = Ret () w')"

definition warm_step :: "action_fn option \<Rightarrow> action_fn \<Rightarrow> action_fn option \<Rightarrow>
    world \<Rightarrow> world \<Rightarrow> bool" where
  "warm_step su a td w w' =
     (\<exists>w1 w2. runs_opt su w w1 \<and> a w1 = Ret () w2 \<and> runs_opt td w2 w')"

definition timed_step :: "action_fn option \<Rightarrow> action_fn \<Rightarrow> action_fn option \<Rightarrow>
    u64 \<times> u64 \<Rightarrow> world \<Rightarrow> world \<Rightarrow> bool" where
  "timed_step su a td ts w w' =
     (\<exists>w1 w2 w3 w4. runs_opt su w w1 \<and> nsecs_now w1 = Ret (fst ts) w2 \<and> a w2 = Ret () w3
        \<and> nsecs_now w3 = Ret (snd ts) w4 \<and> runs_opt td w4 w')"

definition overhead_step :: "action_fn option \<Rightarrow> action_fn option \<Rightarrow>
    u64 \<times> u64 \<Rightarrow> world \<Rightarrow> world \<Rightarrow> bool" where
  "overhead_step su td ts w w' =
     (\<exists>w1 w2 w3. runs_opt su w w1 \<and> nsecs_now w1 = Ret (fst ts) w2
        \<and> nsecs_now w2 = Ret (snd ts) w3 \<and> runs_opt td w3 w')"

text \<open>
  \<open>chain step xs w w'\<close>: one cycle for each element of \<open>xs\<close>, in order, each starting
  in the world the cycle before it has left, lead from \<open>w\<close> to \<open>w'\<close>.
  \<open>warm_chain\<close> is that for a number of warm-up cycles.
\<close>

primrec chain :: "('x \<Rightarrow> world \<Rightarrow> world \<Rightarrow> bool) \<Rightarrow> 'x list \<Rightarrow> world \<Rightarrow> world \<Rightarrow> bool" where
  "chain step [] w w' = (w' = w)"
| "chain step (x # xs) w w' = (\<exists>w1. step x w w1 \<and> chain step xs w1 w')"

definition warm_chain :: "action_fn option \<Rightarrow> action_fn \<Rightarrow> action_fn option \<Rightarrow> nat \<Rightarrow>
    world \<Rightarrow> world \<Rightarrow> bool" where
  "warm_chain su a td m w w' = chain (\<lambda>u. warm_step su a td) (replicate m ()) w w'"

text \<open>
  Three callbacks for the examples. Each writes one line to standard error, of the form
  \<open>perror\<close> gives, with its own name and, in the place of \<open>errno\<close>, the number of
  clock readings made so far. Standard error after a run then lists the callbacks in the
  order in which they ran, each with its place among the clock readings.
\<close>

definition probe :: "string \<Rightarrow> action_fn" where
  "probe name w = Ret () (w\<lparr>stderr := stderr w @ [Err_perror name (int (clock_calls w))]\<rparr>)"

definition probe_setup :: action_fn where
  "probe_setup = probe ''set-up''"

definition probe_action :: action_fn where
  "probe_action = probe ''action''"

definition probe_teardown :: action_fn where
  "probe_teardown = probe ''tear-down''"

text \<open>The sum of \<open>end - start\<close> over a list of readings, in 64-bit arithmetic.\<close>

definition elapsed_sum :: "(u64 \<times> u64) list \<Rightarrow> u64" where
  "elapsed_sum tss = sum_list (map (\<lambda>ts. snd ts - fst ts) tss)"

definition mean_of :: "u64 \<Rightarrow> (u64 \<times> u64) list \<Rightarrow> dbl" where
  "mean_of iters tss = D_div (D_of_u64 (elapsed_sum tss)) (D_of_u64 iters)"

subsection \<open>A system without failures\<close>

text \<open>
  A system in which every call succeeds: the clock advances by 7 ns from one reading to
  the next and the k-th child has the process id 100 + k.
\<close>

definition os_ok :: os where
  "os_ok =
     \<lparr>clock_gettime_res = (\<lambda>k. Done (0, 7 * k)),
      fork_res = (\<lambda>k. Done (100 + k)),
      waitpid_intr = (\<lambda>k. False),
      waitpid_status = (\<lambda>k. 0),
      nanosleep_res = (\<lambda>k. Done ()),
      getppid_res = 1,
      system_res = (\<lambda>k. Done 0),
      mkdtemp_res = (\<lambda>k. Done ''abcdef''),
      rmdir_fault = (\<lambda>k. None),
      access_x_res = (\<lambda>p. Done ()),
      open_res = (\<lambda>k. Done (3 + k)),
      malloc_ok = (\<lambda>k. True),
      exec_res = (\<lambda>k. Done ())\<rparr>"

definition w_ok :: world where
  "w_ok = initial_world os_ok"

text \<open>The value a computation returned, if it returned.\<close>

definition returned :: "'a outcome \<Rightarrow> 'a option" where
  "returned m = (case m of Stop c w \<Rightarrow> None | Ret a w \<Rightarrow> Some a)"

subsection \<open>Assertions about computations\<close>

text \<open>
  \<open>triple P m Q E\<close>: run from a world satisfying \<open>P\<close>, the computation \<open>m\<close> either
  returns a value and a world satisfying \<open>Q\<close>, or ends the process with a status and a
  world satisfying \<open>E\<close>.
\<close>

definition triple :: "(world \<Rightarrow> bool) \<Rightarrow> (world \<Rightarrow> 'a outcome) \<Rightarrow> ('a \<Rightarrow> world \<Rightarrow> bool)
    \<Rightarrow> (int \<Rightarrow> world \<Rightarrow> bool) \<Rightarrow> bool" where
  "triple P m Q E = (\<forall>w. P w \<longrightarrow> (case m w of Stop c w' \<Rightarrow> E c w' | Ret a w' \<Rightarrow> Q a w'))"

subsection \<open>The scenario table\<close>

text \<open>
  The eight scenarios as the specification describes them: a descriptor of label,
  callbacks, iteration count and flag, selected by its number. \<open>main\<close> is written with a
  \<open>switch\<close>; that it does what the table says is proved below.
\<close>

record scenario =
  sc_label :: string
  sc_setup :: "action_fn option"
  sc_action :: action_fn
  sc_teardown :: "action_fn option"
  sc_iters :: u64
  sc_subtract :: bool

definition scenario_table :: "int \<Rightarrow> scenario option" where
  "scenario_table k =
     (if k = 1 then Some \<lparr>sc_label = ''scenario_1_empty_function_call'', sc_setup = None,
        sc_action = act_call_empty, sc_teardown = None, sc_iters = 200000, sc_subtract = True\<rparr>
      else if k = 2 then Some \<lparr>sc_label = ''scenario_2_drand48'', sc_setup = None,
        sc_action = act_drand48, sc_teardown = None, sc_iters = 200000, sc_subtract = True\<rparr>
      else if k = 3 then Some \<lparr>sc_label = ''scenario_3_getppid'', sc_setup = None,
        sc_action = act_getppid, sc_teardown = None, sc_iters = 200000, sc_subtract = True\<rparr>
      else if k = 4 then Some \<lparr>sc_label = ''scenario_4_fork_parent_return'', sc_setup = None,
        sc_action = act_fork_parent_return, sc_teardown = Some teardown_wait_for_last_child,
        sc_iters = 8000, sc_subtract = True\<rparr>
      else if k = 5 then Some \<lparr>sc_label = ''scenario_5_waitpid_already_terminated'',
        sc_setup = Some setup_waitpid_ready, sc_action = act_waitpid_ready,
        sc_teardown = Some teardown_wait_ready, sc_iters = 2000, sc_subtract = True\<rparr>
      else if k = 6 then Some \<lparr>sc_label = ''scenario_6_fork_child_exit_waitpid'',
        sc_setup = None, sc_action = act_fork_child_exit_wait, sc_teardown = None,
        sc_iters = 4000, sc_subtract = False\<rparr>
      else if k = 7 then Some \<lparr>sc_label = ''scenario_7_system_true'', sc_setup = None,
        sc_action = act_system_true, sc_teardown = None, sc_iters = 2500, sc_subtract = False\<rparr>
      else if k = 8 then Some \<lparr>sc_label = ''scenario_8_mkdir_rmdir'',
        sc_setup = Some setup_mkdir_rmdir, sc_action = act_mkdir_rmdir, sc_teardown = None,
        sc_iters = 20000, sc_subtract = True\<rparr>
      else None)"

text \<open>The harness called once with a descriptor, and the part of \<open>main\<close> before the call.\<close>

definition run_scenario :: "scenario \<Rightarrow> world \<Rightarrow> unit outcome" where
  "run_scenario sc w =
     measure_c (sc_label sc) (sc_setup sc) (sc_action sc) (sc_teardown sc) (sc_iters sc)
       (sc_subtract sc) w"

definition startup :: "world \<Rightarrow> world" where
  "startup w = srand48 0xC0FFEE (resolve_true_path w)"

text \<open>The last \<open>fork\<close> answered 0: this process is the child it made.\<close>

definition in_child :: "world \<Rightarrow> bool" where
  "in_child w = (0 < fork_calls w \<and> fork_res (os w) (fork_calls w - 1) = Done 0)"

subsection \<open>Assertions used as invariants\<close>

text \<open>What every callback of the program and the clock leave untouched: standard output.\<close>

definition quiet :: "out_line list \<Rightarrow> world \<Rightarrow> bool" where
  "quiet s w = (stdout w = s)"

definition quiet_stop :: "out_line list \<Rightarrow> int \<Rightarrow> world \<Rightarrow> bool" where
  "quiet_stop s c w = (stdout w = s \<and> (c = 1 \<or> c = 0 \<and> in_child w))"

text \<open>On the system \<open>os_ok\<close> the first scenario runs to its end and writes no diagnostic.\<close>

definition calm :: "world \<Rightarrow> bool" where
  "calm w = (os w = os_ok \<and> stderr w = [])"

subsection \<open>The checked system calls\<close>

text \<open>
  The places where the program checks the answer of a system call: the clock read of the
  harness and the calls inside the callbacks of the scenarios.
\<close>

datatype site =
    Clock
  | Fork_in_act4 | Wait_in_teardown4
  | Fork_in_setup5 | Wait_in_act5 | Wait_in_teardown5
  | Fork_in_act6 | Wait_in_act6
  | System_in_act7
  | Mkdtemp_in_act8 | Rmdir_in_act8

definition site_code :: "site \<Rightarrow> world \<Rightarrow> unit outcome" where
  "site_code s =
     (case s of
        Clock \<Rightarrow> (\<lambda>w. bind (nsecs_now w) (\<lambda>t w. Ret () w))
      | Fork_in_act4 \<Rightarrow> act_fork_parent_return
      | Wait_in_teardown4 \<Rightarrow> teardown_wait_for_last_child
      | Fork_in_setup5 \<Rightarrow> setup_waitpid_ready
      | Wait_in_act5 \<Rightarrow> act_waitpid_ready
      | Wait_in_teardown5 \<Rightarrow> teardown_wait_ready
      | Fork_in_act6 \<Rightarrow> act_fork_child_exit_wait
      | Wait_in_act6 \<Rightarrow> act_fork_child_exit_wait
      | System_in_act7 \<Rightarrow> act_system_true
      | Mkdtemp_in_act8 \<Rightarrow> act_mkdir_rmdir
      | Rmdir_in_act8 \<Rightarrow> act_mkdir_rmdir)"

definition site_name :: "site \<Rightarrow> string" where
  "site_name s =
     (case s of
        Clock \<Rightarrow> ''clock_gettime''
      | Fork_in_act4 \<Rightarrow> ''fork'' | Fork_in_setup5 \<Rightarrow> ''fork'' | Fork_in_act6 \<Rightarrow> ''fork''
      | Wait_in_teardown4 \<Rightarrow> ''waitpid'' | Wait_in_act5 \<Rightarrow> ''waitpid''
      | Wait_in_teardown5 \<Rightarrow> ''waitpid'' | Wait_in_act6 \<Rightarrow> ''waitpid''
      | System_in_act7 \<Rightarrow> ''system''
      | Mkdtemp_in_act8 \<Rightarrow> ''mkdtemp''
      | Rmdir_in_act8 \<Rightarrow> ''rmdir'')"

definition site_calls :: "site \<Rightarrow> world \<Rightarrow> nat" where
  "site_calls s =
     (case s of
        Clock \<Rightarrow> clock_calls
      | Fork_in_act4 \<Rightarrow> fork_calls | Fork_in_setup5 \<Rightarrow> fork_calls | Fork_in_act6 \<Rightarrow> fork_calls
      | Wait_in_teardown4 \<Rightarrow> waitpid_calls | Wait_in_act5 \<Rightarrow> waitpid_calls
      | Wait_in_teardown5 \<Rightarrow> waitpid_calls | Wait_in_act6 \<Rightarrow> waitpid_calls
      | System_in_act7 \<Rightarrow> system_calls
      | Mkdtemp_in_act8 \<Rightarrow> mkdtemp_calls
      | Rmdir_in_act8 \<Rightarrow> rmdir_calls)"

text \<open>
  \<open>wait_fails pid w\<close> is the \<open>errno\<close> of \<open>waitpid(pid, &st, 0)\<close> called in \<open>w\<close> when
  it returns a negative value. \<open>site_fails s w\<close> is \<open>Some e\<close> when the function of the
  site, run from \<open>w\<close>, reaches the call of the site and the call answers with its
  failure indicator and \<open>errno = e\<close>.
\<close>

definition wait_fails :: "int \<Rightarrow> world \<Rightarrow> int option" where
  "wait_fails pid w =
     (case sys_waitpid pid w of ((r, st), w1) \<Rightarrow> if r < 0 then Some (errno w1) else None)"

definition fork_fails :: "world \<Rightarrow> int option" where
  "fork_fails w = (case fork_res (os w) (fork_calls w) of Fail e \<Rightarrow> Some e | Done p \<Rightarrow> None)"

definition site_fails :: "site \<Rightarrow> world \<Rightarrow> int option" where
  "site_fails s w =
     (case s of
        Clock \<Rightarrow>
          (case clock_gettime_res (os w) (clock_calls w) of Fail e \<Rightarrow> Some e | Done t \<Rightarrow> None)
      | Fork_in_act4 \<Rightarrow> fork_fails w
      | Fork_in_setup5 \<Rightarrow> fork_fails w
      | Fork_in_act6 \<Rightarrow> fork_fails w
      | Wait_in_teardown4 \<Rightarrow> (if 0 < last_child w then wait_fails (last_child w) w else None)
      | Wait_in_act5 \<Rightarrow> (if 0 < ready_zombie w then wait_fails (ready_zombie w) w else None)
      | Wait_in_teardown5 \<Rightarrow>
          (if 0 < ready_zombie w then wait_fails (ready_zombie w) w else None)
      | Wait_in_act6 \<Rightarrow> (case sys_fork w of (p, w1) \<Rightarrow> if 0 < p then wait_fails p w1 else None)
      | System_in_act7 \<Rightarrow>
          (case system_res (os w) (system_calls w) of Fail e \<Rightarrow> Some e | Done rc \<Rightarrow> None)
      | Mkdtemp_in_act8 \<Rightarrow>
          (case sys_mkdtemp (workdir w) w of (None, w1) \<Rightarrow> Some (errno w1) | (Some buf, w1) \<Rightarrow> None)
      | Rmdir_in_act8 \<Rightarrow>
          (case sys_mkdtemp (workdir w) w of
             (None, w1) \<Rightarrow> None
           | (Some buf, w1) \<Rightarrow>
               (case sys_rmdir buf w1 of (r, w2) \<Rightarrow> if r \<noteq> 0 then Some (errno w2) else None)))"

definition tolerated :: "site \<Rightarrow> int \<Rightarrow> bool" where
  "tolerated s e = (s = Wait_in_teardown5 \<and> e = ECHILD)"

text \<open>
  A fatal outcome: the process ends with status 1, the last line of standard error is
  \<open>perror\<close>'s with the given prefix and error, standard output is as it was, and the
  call has been made once.
\<close>

definition fatal :: "string \<Rightarrow> int \<Rightarrow> (world \<Rightarrow> nat) \<Rightarrow> world \<Rightarrow> 'a outcome \<Rightarrow> bool" where
  "fatal name e calls w m =
     (case m of
        Ret a w' \<Rightarrow> False
      | Stop c w' \<Rightarrow> c = 1 \<and> stderr w' = stderr w @ [Err_perror name e]
          \<and> stdout w' = stdout w \<and> calls w' = Suc (calls w))"

subsection \<open>Example systems and states\<close>

text \<open>A system in which every call that can fail does.\<close>

definition os_fail :: os where
  "os_fail =
     \<lparr>clock_gettime_res = (\<lambda>k. Fail 22),
      fork_res = (\<lambda>k. Fail 11),
      waitpid_intr = (\<lambda>k. True),
      waitpid_status = (\<lambda>k. 0),
      nanosleep_res = (\<lambda>k. Fail 4),
      getppid_res = 1,
      system_res = (\<lambda>k. Fail 11),
      mkdtemp_res = (\<lambda>k. Fail 13),
      rmdir_fault = (\<lambda>k. Some 13),
      access_x_res = (\<lambda>p. Fail 2),
      open_res = (\<lambda>k. Fail 13),
      malloc_ok = (\<lambda>k. False),
      exec_res = (\<lambda>k. Fail 2)\<rparr>"

definition w_fail :: world where
  "w_fail = initial_world os_fail"

text \<open>Scenario 5 on \<open>os_ok\<close>, after the set-up and the action of the first cycle.\<close>

definition w_reaped :: world where
  "w_reaped = final_world (bind (setup_waitpid_ready w_ok) (\<lambda>u. act_waitpid_ready))"

text \<open>
  The table of unreaped children at the three points of a cycle, for the scenarios that
  fork: empty between cycles; after the set-up of scenario 5 and after the action of
  scenario 4 it holds the one child whose id is in the register.
\<close>

definition no_child :: "world \<Rightarrow> bool" where
  "no_child w = (children w = [] \<and> peak_children w \<le> 1)"

definition one_child :: "(world \<Rightarrow> int) \<Rightarrow> world \<Rightarrow> bool" where
  "one_child reg w = (children w = [reg w] \<and> 0 < reg w \<and> peak_children w \<le> 1)"

definition peak_ok :: "int \<Rightarrow> world \<Rightarrow> bool" where
  "peak_ok c w = (peak_children w \<le> 1)"

text \<open>Scenario 5 on \<open>os_ok\<close>, after the set-up of the first cycle.\<close>

definition w_forked :: world where
  "w_forked = final_world (setup_waitpid_ready w_ok)"

text \<open>A system that is \<open>os_ok\<close> except that every \<open>nanosleep\<close> is interrupted.\<close>

definition w_nosleep :: world where
  "w_nosleep = initial_world (os_ok\<lparr>nanosleep_res := (\<lambda>k. Fail EINTR)\<rparr>)"

text \<open>A state in which \<open>waitpid\<close> is interrupted while the register names a child.\<close>

definition w_intr :: world where
  "w_intr = w_fail\<lparr>ready_zombie := 100, children := [100]\<rparr>"

text \<open>A child-pid register is clear when it holds -1 and set when it holds a process id.\<close>

definition reg_clear :: "(world \<Rightarrow> int) \<Rightarrow> world \<Rightarrow> bool" where
  "reg_clear reg w = (reg w = - 1)"

definition reg_set :: "(world \<Rightarrow> int) \<Rightarrow> world \<Rightarrow> bool" where
  "reg_set reg w = (0 < reg w)"

definition any_stop :: "int \<Rightarrow> world \<Rightarrow> bool" where
  "any_stop c w = True"

text \<open>One overhead cycle of scenario 5 on \<open>os_ok\<close>, and the state it ends in.\<close>

definition overhead_cycle_5 :: "u64 outcome" where
  "overhead_cycle_5 =
     overhead_cycle (Some setup_waitpid_ready) (Some teardown_wait_ready) 0 w_ok"

definition w_overhead :: world where
  "w_overhead = final_world overhead_cycle_5"

text \<open>Scenario 4 on \<open>os_ok\<close>, after the action of the first cycle.\<close>

definition w_act4 :: world where
  "w_act4 = final_world (act_fork_parent_return w_ok)"





section \<open>Loops and outcomes\<close>

lemma bind_Ret [simp]: "bind (Ret a w) f = f a w"
  by (simp add: bind_def)

lemma bind_Stop [simp]: "bind (Stop c w) f = Stop c w"
  by (simp add: bind_def)

lemma bind_eq_Ret:
  "bind m f = Ret b w' \<longleftrightarrow> (\<exists>a w1. m = Ret a w1 \<and> f a w1 = Ret b w')"
  by (cases m) simp_all

lemma bind_eq_Stop:
  "bind m f = Stop c w' \<longleftrightarrow> m = Stop c w' \<or> (\<exists>a w1. m = Ret a w1 \<and> f a w1 = Stop c w')"
  by (cases m) auto

lemma unat_Suc_less: "(i :: u64) < n \<Longrightarrow> unat (i + 1) = Suc (unat i)"
proof -
  assume "i < n"
  then have "unat i < unat n"
    by (simp add: word_less_nat_alt)
  moreover have "unat n < 2 ^ 64"
    using unsigned_less [of n] by simp
  ultimately have "unat i + unat (1 :: u64) < 2 ^ LENGTH(64)"
    by simp
  then have "unat (i + 1) = unat i + unat (1 :: u64)"
    by (simp only: unat_add_lem)
  then show ?thesis by simp
qed

text \<open>The loop over a 64-bit index runs its body \<open>n - i\<close> times.\<close>

lemma for_u64_iter: "for_u64 i n body a w = iter (unat n - unat i) body a w"
proof (induction i n body a w rule: for_u64.induct)
  case (1 i n body a w)
  show ?case
  proof (cases "i < n")
    case True
    then have lt: "unat i < unat n"
      by (simp add: word_less_nat_alt)
    have suc: "unat (i + 1) = Suc (unat i)"
      using True by (rule unat_Suc_less)
    from lt have k: "unat n - unat i = Suc (unat n - unat (i + 1))"
      by (simp add: suc)
    show ?thesis
    proof (cases "body a w")
      case (Stop c w')
      with True k show ?thesis
        by (simp add: for_u64.simps [of i n])
    next
      case (Ret a' w')
      with True k "1.IH" [OF True Ret] show ?thesis
        by (simp add: for_u64.simps [of i n])
    qed
  next
    case False
    then have "unat n - unat i = 0"
      by (simp add: word_less_nat_alt)
    with False show ?thesis
      by (simp add: for_u64.simps [of i n])
  qed
qed

lemma for_u64_0: "for_u64 0 n body a w = iter (unat n) body a w"
  by (simp add: for_u64_iter)

text \<open>
  A cycle of the code that returns is a cycle as specified, and the other way round: the
  calls are made in the order of the relation, each from the world the call before it
  has left.
\<close>

lemma call_opt_Ret: "call_opt f w = Ret u w' \<longleftrightarrow> runs_opt f w w'"
  by (auto simp: call_opt_def runs_opt_def split: option.splits)

lemma warm_cycle_Ret:
  "warm_cycle su a td u w = Ret u' w' \<longleftrightarrow> warm_step su a td w w'"
  by (auto simp: warm_cycle_def warm_step_def bind_eq_Ret call_opt_Ret)

lemma timed_cycle_Ret:
  "timed_cycle su a td tot w = Ret tot' w' \<longleftrightarrow>
     (\<exists>ts. timed_step su a td ts w w' \<and> tot' = tot + (snd ts - fst ts))"
proof
  assume "timed_cycle su a td tot w = Ret tot' w'"
  then obtain w1 t0 w2 w3 t1 w4 where
    "runs_opt su w w1" "nsecs_now w1 = Ret t0 w2" "a w2 = Ret () w3"
    "nsecs_now w3 = Ret t1 w4" "runs_opt td w4 w'" "tot' = tot + (t1 - t0)"
    by (auto simp: timed_cycle_def bind_eq_Ret call_opt_Ret)
  then have "timed_step su a td (t0, t1) w w' \<and> tot' = tot + (snd (t0, t1) - fst (t0, t1))"
    unfolding timed_step_def by auto
  then show "\<exists>ts. timed_step su a td ts w w' \<and> tot' = tot + (snd ts - fst ts)" ..
next
  assume "\<exists>ts. timed_step su a td ts w w' \<and> tot' = tot + (snd ts - fst ts)"
  then show "timed_cycle su a td tot w = Ret tot' w'"
    by (auto simp: timed_cycle_def timed_step_def bind_eq_Ret call_opt_Ret)
qed

lemma overhead_cycle_Ret:
  "overhead_cycle su td tot w = Ret tot' w' \<longleftrightarrow>
     (\<exists>ts. overhead_step su td ts w w' \<and> tot' = tot + (snd ts - fst ts))"
proof
  assume "overhead_cycle su td tot w = Ret tot' w'"
  then obtain w1 t0 w2 t1 w3 where
    "runs_opt su w w1" "nsecs_now w1 = Ret t0 w2" "nsecs_now w2 = Ret t1 w3"
    "runs_opt td w3 w'" "tot' = tot + (t1 - t0)"
    by (auto simp: overhead_cycle_def bind_eq_Ret call_opt_Ret)
  then have "overhead_step su td (t0, t1) w w' \<and> tot' = tot + (snd (t0, t1) - fst (t0, t1))"
    unfolding overhead_step_def by auto
  then show "\<exists>ts. overhead_step su td ts w w' \<and> tot' = tot + (snd ts - fst ts)" ..
next
  assume "\<exists>ts. overhead_step su td ts w w' \<and> tot' = tot + (snd ts - fst ts)"
  then show "overhead_cycle su td tot w = Ret tot' w'"
    by (auto simp: overhead_cycle_def overhead_step_def bind_eq_Ret call_opt_Ret)
qed

text \<open>A loop that ran to its end, by induction on the number of rounds.\<close>

lemma iter_warm_Ret:
  "iter k (warm_cycle su a td) u w = Ret u' w' \<longleftrightarrow> warm_chain su a td k w w'"
proof (induction k arbitrary: w)
  case 0
  show ?case by (auto simp: warm_chain_def)
next
  case (Suc k)
  have "iter (Suc k) (warm_cycle su a td) u w = Ret u' w' \<longleftrightarrow>
      (\<exists>w1. warm_step su a td w w1 \<and> iter k (warm_cycle su a td) u w1 = Ret u' w')"
    by (simp add: bind_eq_Ret warm_cycle_Ret)
  also have "\<dots> \<longleftrightarrow> (\<exists>w1. warm_step su a td w w1 \<and> warm_chain su a td k w1 w')"
    by (simp only: Suc.IH)
  also have "\<dots> \<longleftrightarrow> warm_chain su a td (Suc k) w w'"
    by (simp add: warm_chain_def)
  finally show ?case .
qed

lemma iter_timed_Ret:
  "iter k (timed_cycle su a td) tot w = Ret tot' w' \<Longrightarrow>
   \<exists>tss. length tss = k \<and> chain (timed_step su a td) tss w w'
     \<and> tot' = tot + elapsed_sum tss"
proof (induction k arbitrary: tot w)
  case 0
  then show ?case by (simp add: elapsed_sum_def)
next
  case (Suc k)
  from Suc.prems obtain tot1 w1 where
    c: "timed_cycle su a td tot w = Ret tot1 w1"
    and r: "iter k (timed_cycle su a td) tot1 w1 = Ret tot' w'"
    by (auto simp: bind_eq_Ret)
  from c obtain ts where ts: "timed_step su a td ts w w1" "tot1 = tot + (snd ts - fst ts)"
    by (auto simp: timed_cycle_Ret)
  from Suc.IH [OF r] obtain tss where
    "length tss = k" "chain (timed_step su a td) tss w1 w'" "tot' = tot1 + elapsed_sum tss"
    by blast
  with ts have "length (ts # tss) = Suc k \<and> chain (timed_step su a td) (ts # tss) w w'
     \<and> tot' = tot + elapsed_sum (ts # tss)"
    by (auto simp: elapsed_sum_def)
  then show ?case by blast
qed

lemma iter_overhead_Ret:
  "iter k (overhead_cycle su td) tot w = Ret tot' w' \<Longrightarrow>
   \<exists>tss. length tss = k \<and> chain (overhead_step su td) tss w w'
     \<and> tot' = tot + elapsed_sum tss"
proof (induction k arbitrary: tot w)
  case 0
  then show ?case by (simp add: elapsed_sum_def)
next
  case (Suc k)
  from Suc.prems obtain tot1 w1 where
    c: "overhead_cycle su td tot w = Ret tot1 w1"
    and r: "iter k (overhead_cycle su td) tot1 w1 = Ret tot' w'"
    by (auto simp: bind_eq_Ret)
  from c obtain ts where ts: "overhead_step su td ts w w1" "tot1 = tot + (snd ts - fst ts)"
    by (auto simp: overhead_cycle_Ret)
  from Suc.IH [OF r] obtain tss where
    "length tss = k" "chain (overhead_step su td) tss w1 w'" "tot' = tot1 + elapsed_sum tss"
    by blast
  with ts have "length (ts # tss) = Suc k \<and> chain (overhead_step su td) (ts # tss) w w'
     \<and> tot' = tot + elapsed_sum (ts # tss)"
    by (auto simp: elapsed_sum_def)
  then show ?case by blast
qed

text \<open>The number of warm-up rounds is computed without wrap-around.\<close>

lemma warm_count: "unat ((iters :: u64) div 10 + 1) = unat iters div 10 + 1"
proof -
  have "unat (iters div 10) = unat iters div 10"
    by (simp add: unat_div)
  moreover have "unat iters < 2 ^ 64"
    using unsigned_less [of iters] by simp
  ultimately have "unat (iters div 10) + unat (1 :: u64) < 2 ^ LENGTH(64)"
    by simp
  then have "unat (iters div 10 + 1) = unat (iters div 10) + unat (1 :: u64)"
    by (simp only: unat_add_lem)
  then show ?thesis
    by (simp add: unat_div)
qed

lemma warm_up_Ret:
  "warm_up su a td iters w = Ret u w' \<longleftrightarrow>
   warm_chain su a td (unat iters div 10 + 1) w w'"
  using iter_warm_Ret [of "unat iters div 10 + 1" su a td "()" w u w']
  by (simp add: warm_up_def for_u64_0 warm_count)

text \<open>
  A call of \<open>measure\<close> that returns: the cycles it has run, and what it has printed
  after the last of them.
\<close>

lemma measure_c_Ret:
  assumes "measure_c label su a td iters so w = Ret u w'"
  shows "iters \<noteq> 0 \<and> (\<exists>wA tss wB tso wC.
     warm_chain su a td (unat iters div 10 + 1) w wA
   \<and> chain (timed_step su a td) tss wA wB \<and> length tss = unat iters
   \<and> chain (overhead_step su td) tso wB wC \<and> length tso = (if so then unat iters else 0)
   \<and> w' = wC\<lparr>stdout := stdout wC @ measure_report label iters so (mean_of iters tss)
                 (if so then mean_of iters tso else D_zero)\<rparr>)"
proof -
  from assms have nz: "iters \<noteq> 0"
    by (auto simp: measure_c_def split: if_splits)
  from assms nz obtain u1 w1 tot w2 ovh w3 where
    wu: "warm_up su a td iters w = Ret u1 w1"
    and tl: "timed_loop su a td iters w1 = Ret tot w2"
    and ov: "(if so then bind (overhead_loop su td iters w2)
                (\<lambda>total_o w. Ret (D_div (D_of_u64 total_o) (D_of_u64 iters)) w)
              else Ret D_zero w2) = Ret ovh w3"
    and fin: "w' = w3\<lparr>stdout := stdout w3 @ measure_report label iters so
         (D_div (D_of_u64 tot) (D_of_u64 iters)) ovh\<rparr>"
    by (auto simp: measure_c_def bind_eq_Ret Let_def)
  from wu have c1: "warm_chain su a td (unat iters div 10 + 1) w w1"
    by (simp add: warm_up_Ret)
  from tl obtain tss where tss: "length tss = unat iters"
      "chain (timed_step su a td) tss w1 w2" "tot = elapsed_sum tss"
    using iter_timed_Ret [of "unat iters" su a td 0 w1 tot w2]
    by (auto simp: timed_loop_def for_u64_0)
  have "\<exists>tso. length tso = (if so then unat iters else 0)
      \<and> chain (overhead_step su td) tso w2 w3
      \<and> ovh = (if so then mean_of iters tso else D_zero)"
  proof (cases so)
    case True
    with ov obtain tot_o where ol: "overhead_loop su td iters w2 = Ret tot_o w3"
      and o: "ovh = D_div (D_of_u64 tot_o) (D_of_u64 iters)"
      by (auto simp: bind_eq_Ret)
    from ol obtain tso where "length tso = unat iters"
      "chain (overhead_step su td) tso w2 w3" "tot_o = elapsed_sum tso"
      using iter_overhead_Ret [of "unat iters" su td 0 w2 tot_o w3]
      by (auto simp: overhead_loop_def for_u64_0)
    with True o show ?thesis
      by (auto simp: mean_of_def)
  next
    case False
    with ov have "w3 = w2" "ovh = D_zero" by auto
    with False have "length [] = (if so then unat iters else 0)
      \<and> chain (overhead_step su td) [] w2 w3
      \<and> ovh = (if so then mean_of iters [] else D_zero)"
      by simp
    then show ?thesis ..
  qed
  then obtain tso where tso: "length tso = (if so then unat iters else 0)"
      "chain (overhead_step su td) tso w2 w3"
      "ovh = (if so then mean_of iters tso else D_zero)"
    by blast
  have "warm_chain su a td (unat iters div 10 + 1) w w1
   \<and> chain (timed_step su a td) tss w1 w2 \<and> length tss = unat iters
   \<and> chain (overhead_step su td) tso w2 w3 \<and> length tso = (if so then unat iters else 0)
   \<and> w' = w3\<lparr>stdout := stdout w3 @ measure_report label iters so (mean_of iters tss)
                 (if so then mean_of iters tso else D_zero)\<rparr>"
    using c1 tss tso fin by (simp add: mean_of_def)
  with nz show ?thesis by blast
qed

text \<open>Unfolding a loop of a given number of rounds, for the examples.\<close>

lemma iter_numeral:
  "iter (numeral k) body a w = bind (body a w) (iter (pred_numeral k) body)"
  by (simp add: numeral_eq_Suc)

lemma replicate_numeral:
  "replicate (numeral k) x = x # replicate (pred_numeral k) x"
  by (simp add: numeral_eq_Suc)

lemmas harness_defs =
  measure_c_def warm_up_def timed_loop_def overhead_loop_def warm_cycle_def timed_cycle_def
  overhead_cycle_def call_opt_def nsecs_now_def clock_gettime_def perror_def
  for_u64_0 iter_numeral replicate_numeral measure_report_def Let_def

section \<open>Rules for assertions\<close>

lemma tripleI:
  "(\<And>w. P w \<Longrightarrow> (case m w of Stop c w' \<Rightarrow> E c w' | Ret a w' \<Rightarrow> Q a w')) \<Longrightarrow> triple P m Q E"
  by (simp add: triple_def)

lemma triple_Ret: "triple P m Q E \<Longrightarrow> P w \<Longrightarrow> m w = Ret a w' \<Longrightarrow> Q a w'"
  by (auto simp: triple_def split: outcome.splits)

lemma triple_Stop: "triple P m Q E \<Longrightarrow> P w \<Longrightarrow> m w = Stop c w' \<Longrightarrow> E c w'"
  by (auto simp: triple_def split: outcome.splits)

lemma triple_bind:
  assumes "triple P m Q E" and "\<And>a. triple (Q a) (f a) R E"
  shows "triple P (\<lambda>w. bind (m w) f) R E"
proof (rule tripleI)
  fix w assume p: "P w"
  show "case bind (m w) f of Stop c w' \<Rightarrow> E c w' | Ret a w' \<Rightarrow> R a w'"
  proof (cases "m w")
    case (Stop c w')
    with triple_Stop [OF assms(1) p] show ?thesis by simp
  next
    case (Ret a w')
    with triple_Ret [OF assms(1) p] have "Q a w'" by simp
    with assms(2) [of a] have "case f a w' of Stop c w'' \<Rightarrow> E c w'' | Ret b w'' \<Rightarrow> R b w''"
      by (simp add: triple_def)
    with Ret show ?thesis by simp
  qed
qed

lemma triple_return: "(\<And>w. P w \<Longrightarrow> Q a w) \<Longrightarrow> triple P (Ret a) Q E"
  by (simp add: triple_def)

lemma triple_post:
  "triple P m Q E \<Longrightarrow> (\<And>a w. Q a w \<Longrightarrow> Q' a w) \<Longrightarrow> triple P m Q' E"
  by (auto simp: triple_def split: outcome.splits)

lemma triple_iter:
  assumes "\<And>a. triple I (body a) (\<lambda>_. I) E"
  shows "triple I (iter k body a) (\<lambda>_. I) E"
proof (induction k arbitrary: a)
  case 0
  show ?case by (simp add: triple_def)
next
  case (Suc k)
  have "triple I (\<lambda>w. bind (body a w) (iter k body)) (\<lambda>_. I) E"
    using triple_bind [where m = "body a" and f = "iter k body", OF assms [of a] Suc.IH] .
  then show ?case by (simp add: triple_def)
qed

lemma triple_for_u64:
  assumes "\<And>a. triple I (body a) (\<lambda>_. I) E"
  shows "triple I (for_u64 0 n body a) (\<lambda>_. I) E"
  using triple_iter [where k = "unat n" and a = a, OF assms] by (simp add: triple_def for_u64_0)

text \<open>
  The cycles of the three phases: \<open>P0\<close> holds between cycles, \<open>P1\<close> after the set-up
  and \<open>P2\<close> after the action.
\<close>

lemma warm_cycle_triple:
  assumes su: "triple P0 (call_opt su) (\<lambda>_. P1) E"
    and a: "triple P1 a (\<lambda>_. P2) E"
    and td: "triple P2 (call_opt td) (\<lambda>_. P0) E"
  shows "triple P0 (warm_cycle su a td u) (\<lambda>_. P0) E"
  unfolding warm_cycle_def
  by (rule triple_bind [OF su] triple_bind [OF a] triple_bind [OF td] triple_return | assumption)+

lemma timed_cycle_triple:
  assumes su: "triple P0 (call_opt su) (\<lambda>_. P1) E"
    and a: "triple P1 a (\<lambda>_. P2) E"
    and td: "triple P2 (call_opt td) (\<lambda>_. P0) E"
    and c1: "triple P1 nsecs_now (\<lambda>_. P1) E"
    and c2: "triple P2 nsecs_now (\<lambda>_. P2) E"
  shows "triple P0 (timed_cycle su a td total_ns) (\<lambda>_. P0) E"
  unfolding timed_cycle_def
  by (rule triple_bind [OF su] triple_bind [OF c1] triple_bind [OF a] triple_bind [OF c2]
      triple_bind [OF td] triple_return | assumption)+

lemma overhead_cycle_triple:
  assumes su: "triple P0 (call_opt su) (\<lambda>_. P1) E"
    and td: "triple P1 (call_opt td) (\<lambda>_. P0) E"
    and c1: "triple P1 nsecs_now (\<lambda>_. P1) E"
  shows "triple P0 (overhead_cycle su td total_o) (\<lambda>_. P0) E"
  unfolding overhead_cycle_def
  by (rule triple_bind [OF su] triple_bind [OF c1] triple_bind [OF td] triple_return
      | assumption)+

lemma measure_c_triple:
  assumes nz: "iters \<noteq> 0"
    and su: "triple P0 (call_opt su) (\<lambda>_. P1) E"
    and a: "triple P1 a (\<lambda>_. P2) E"
    and td: "triple P2 (call_opt td) (\<lambda>_. P0) E"
    and td1: "so \<Longrightarrow> triple P1 (call_opt td) (\<lambda>_. P0) E"
    and c1: "triple P1 nsecs_now (\<lambda>_. P1) E"
    and c2: "triple P2 nsecs_now (\<lambda>_. P2) E"
  shows "triple P0 (measure_c label su a td iters so)
           (\<lambda>_ w'. \<exists>w1 mean ovh. P0 w1
              \<and> w' = w1\<lparr>stdout := stdout w1 @ measure_report label iters so mean ovh\<rparr>) E"
proof -
  have wu: "triple P0 (warm_up su a td iters) (\<lambda>_. P0) E"
    unfolding warm_up_def Let_def
    by (rule triple_for_u64) (rule warm_cycle_triple [OF su a td])
  have tl: "triple P0 (timed_loop su a td iters) (\<lambda>_. P0) E"
    unfolding timed_loop_def
    by (rule triple_for_u64) (rule timed_cycle_triple [OF su a td c1 c2])
  have ol: "triple P0 (overhead_loop su td iters) (\<lambda>_. P0) E" if so
    unfolding overhead_loop_def
    by (rule triple_for_u64) (rule overhead_cycle_triple [OF su td1 [OF that] c1])
  show ?thesis
  proof (rule tripleI)
    fix w assume p: "P0 w"
    let ?Q = "\<lambda>(u :: unit) w'. \<exists>w1 mean ovh. P0 w1
              \<and> w' = w1\<lparr>stdout := stdout w1 @ measure_report label iters so mean ovh\<rparr>"
    show "case measure_c label su a td iters so w of
            Stop c w' \<Rightarrow> E c w' | Ret u w' \<Rightarrow> ?Q u w'"
    proof (cases "warm_up su a td iters w")
      case (Stop c w1)
      with triple_Stop [OF wu p Stop] nz show ?thesis
        by (simp add: measure_c_def)
    next
      case wret: (Ret u1 w1)
      from triple_Ret [OF wu p wret] have p1: "P0 w1" .
      show ?thesis
      proof (cases "timed_loop su a td iters w1")
        case (Stop c w2)
        with triple_Stop [OF tl p1 Stop] nz wret show ?thesis
          by (simp add: measure_c_def)
      next
        case tret: (Ret tot w2)
        from triple_Ret [OF tl p1 tret] have p2: "P0 w2" .
        show ?thesis
        proof (cases so)
          case False
          from False nz wret tret have "measure_c label su a td iters so w
              = Ret () (w2\<lparr>stdout := stdout w2 @ measure_report label iters so
                  (D_div (D_of_u64 tot) (D_of_u64 iters)) D_zero\<rparr>)"
            by (simp add: measure_c_def Let_def)
          with p2 show ?thesis by auto
        next
          case True
          show ?thesis
          proof (cases "overhead_loop su td iters w2")
            case (Stop c w3)
            with triple_Stop [OF ol [OF True] p2 Stop] True nz wret tret show ?thesis
              by (simp add: measure_c_def Let_def)
          next
            case oret: (Ret tot_o w3)
            from triple_Ret [OF ol [OF True] p2 oret] have p3: "P0 w3" .
            from True nz wret tret oret have "measure_c label su a td iters so w
                = Ret () (w3\<lparr>stdout := stdout w3 @ measure_report label iters so
                    (D_div (D_of_u64 tot) (D_of_u64 iters))
                    (D_div (D_of_u64 tot_o) (D_of_u64 iters))\<rparr>)"
              by (simp add: measure_c_def Let_def)
            with p3 show ?thesis by auto
          qed
        qed
      qed
    qed
  qed
qed

section \<open>The driver and the scenario table\<close>

lemma main_by_table:
  "main argv w =
     (if length argv \<noteq> 2 then Ret 2 (usage (argv0 argv) w)
      else case scenario_table (atoi (argv ! 1)) of
             None \<Rightarrow> Ret 2 (usage (argv0 argv) (startup w))
           | Some sc \<Rightarrow> break_return0 (run_scenario sc (startup w)))"
  by (simp add: main_def scenario_table_def run_scenario_def startup_def Let_def)

lemma scenario_table_Some:
  "(\<exists>sc. scenario_table k = Some sc) \<longleftrightarrow> 1 \<le> k \<and> k \<le> 8"
  by (auto simp: scenario_table_def)

lemma scenario_table_None: "scenario_table k = None \<longleftrightarrow> k < 1 \<or> 8 < k"
  using scenario_table_Some [of k] by (cases "scenario_table k") auto

section \<open>Standard output belongs to the harness\<close>

lemma call_opt_None_triple: "triple P (call_opt None) (\<lambda>_. P) E"
  by (simp add: triple_def call_opt_def)

lemma call_opt_Some_triple: "triple P f Q E \<Longrightarrow> triple P (call_opt (Some f)) Q E"
  by (simp add: triple_def call_opt_def)

lemmas sys_defs = clock_gettime_def sys_fork_def sys_waitpid_def sys_nanosleep_def
  sys_system_def sys_mkdtemp_def sys_rmdir_def sys_access_x_def perror_def eprint_def

lemma nsecs_now_quiet: "triple (quiet s) nsecs_now (\<lambda>_. quiet s) (quiet_stop s)"
  by (auto simp: triple_def quiet_def quiet_stop_def nsecs_now_def sys_defs Let_def
      split: sys.splits prod.splits)

lemma act_call_empty_quiet: "triple (quiet s) act_call_empty (\<lambda>_. quiet s) (quiet_stop s)"
  by (simp add: triple_def act_call_empty_def)

lemma act_drand48_quiet: "triple (quiet s) act_drand48 (\<lambda>_. quiet s) (quiet_stop s)"
  by (simp add: triple_def act_drand48_def quiet_def)

lemma act_getppid_quiet: "triple (quiet s) act_getppid (\<lambda>_. quiet s) (quiet_stop s)"
  by (simp add: triple_def act_getppid_def quiet_def)

lemma act_fork_parent_return_quiet:
  "triple (quiet s) act_fork_parent_return (\<lambda>_. quiet s) (quiet_stop s)"
  by (auto simp: triple_def quiet_def quiet_stop_def in_child_def act_fork_parent_return_def
      sys_defs Let_def split: sys.splits prod.splits if_splits)

lemma teardown_wait_for_last_child_quiet:
  "triple (quiet s) teardown_wait_for_last_child (\<lambda>_. quiet s) (quiet_stop s)"
  by (auto simp: triple_def quiet_def quiet_stop_def teardown_wait_for_last_child_def
      sys_defs Let_def split: sys.splits prod.splits if_splits list.splits)

lemma setup_waitpid_ready_quiet:
  "triple (quiet s) setup_waitpid_ready (\<lambda>_. quiet s) (quiet_stop s)"
  by (auto simp: triple_def quiet_def quiet_stop_def in_child_def setup_waitpid_ready_def
      sys_defs Let_def split: sys.splits prod.splits if_splits)

lemma act_waitpid_ready_quiet:
  "triple (quiet s) act_waitpid_ready (\<lambda>_. quiet s) (quiet_stop s)"
  by (auto simp: triple_def quiet_def quiet_stop_def act_waitpid_ready_def
      sys_defs Let_def split: sys.splits prod.splits if_splits list.splits)

lemma teardown_wait_ready_quiet:
  "triple (quiet s) teardown_wait_ready (\<lambda>_. quiet s) (quiet_stop s)"
  by (auto simp: triple_def quiet_def quiet_stop_def teardown_wait_ready_def
      sys_defs Let_def split: sys.splits prod.splits if_splits list.splits)

lemma act_fork_child_exit_wait_quiet:
  "triple (quiet s) act_fork_child_exit_wait (\<lambda>_. quiet s) (quiet_stop s)"
  by (auto simp: triple_def quiet_def quiet_stop_def in_child_def act_fork_child_exit_wait_def
      sys_defs Let_def split: sys.splits prod.splits if_splits list.splits)

lemma act_system_true_quiet:
  "triple (quiet s) act_system_true (\<lambda>_. quiet s) (quiet_stop s)"
  by (auto simp: triple_def quiet_def quiet_stop_def act_system_true_def
      sys_defs Let_def split: sys.splits prod.splits if_splits)

lemma setup_mkdir_rmdir_quiet:
  "triple (quiet s) setup_mkdir_rmdir (\<lambda>_. quiet s) (quiet_stop s)"
  by (simp add: triple_def setup_mkdir_rmdir_def quiet_def)

lemma act_mkdir_rmdir_quiet:
  "triple (quiet s) act_mkdir_rmdir (\<lambda>_. quiet s) (quiet_stop s)"
  by (auto simp: triple_def quiet_def quiet_stop_def act_mkdir_rmdir_def
      sys_defs Let_def split: sys.splits prod.splits if_splits option.splits)

lemmas quiet_callbacks =
  call_opt_None_triple
  act_call_empty_quiet act_drand48_quiet act_getppid_quiet act_fork_parent_return_quiet
  call_opt_Some_triple [OF teardown_wait_for_last_child_quiet]
  call_opt_Some_triple [OF setup_waitpid_ready_quiet]
  act_waitpid_ready_quiet
  call_opt_Some_triple [OF teardown_wait_ready_quiet]
  act_fork_child_exit_wait_quiet act_system_true_quiet
  call_opt_Some_triple [OF setup_mkdir_rmdir_quiet]
  act_mkdir_rmdir_quiet nsecs_now_quiet

lemma measure_c_quiet:
  assumes "iters \<noteq> 0"
    and "triple (quiet s) (call_opt su) (\<lambda>_. quiet s) (quiet_stop s)"
    and "triple (quiet s) a (\<lambda>_. quiet s) (quiet_stop s)"
    and "triple (quiet s) (call_opt td) (\<lambda>_. quiet s) (quiet_stop s)"
  shows "triple (quiet s) (measure_c label su a td iters so)
     (\<lambda>_ w'. \<exists>mean ovh. stdout w' = s @ measure_report label iters so mean ovh)
     (quiet_stop s)"
  by (rule triple_post [OF measure_c_triple [OF assms(1,2,3,4) assms(4) nsecs_now_quiet
        nsecs_now_quiet]])
    (force simp: quiet_def)

lemma run_scenario_quiet:
  assumes "scenario_table k = Some sc"
  shows "triple (quiet s) (run_scenario sc)
     (\<lambda>_ w'. \<exists>mean ovh. stdout w' = s @ measure_report (sc_label sc) (sc_iters sc)
         (sc_subtract sc) mean ovh)
     (quiet_stop s)"
  using assms unfolding run_scenario_def [abs_def] scenario_table_def
  by (auto split: if_splits intro!: measure_c_quiet quiet_callbacks)

text \<open>The driver: what \<open>atoi\<close> reads, and the fields that the start of \<open>main\<close> leaves alone.\<close>

lemma atoi_examples:
  "atoi ''9'' = 9" "atoi ''1'' = 1" "atoi ''1abc'' = 1"
  by (simp_all add: atoi_def isspace_def isdigit_def digit_val_def)

lemma startup_fields:
  "stdout (startup w) = stdout w" "stderr (startup w) = stderr w"
  "clock_calls (startup w) = clock_calls w" "os (startup w) = os w"
  by (simp_all add: startup_def srand48_def resolve_true_path_def sys_access_x_def
      split: sys.splits prod.splits)

lemma usage_fields:
  "stdout (usage p w) = stdout w" "clock_calls (usage p w) = clock_calls w"
  "stderr (usage p w) = stderr w @ [Err_text (''Usage: '' @ p @ '' <scenario 1..8>'')]"
  by (simp_all add: usage_def eprint_def)

section \<open>Failing system calls\<close>

text \<open>Every site but the tolerated one is fatal, site by site.\<close>

lemma site_failure_fatal:
  assumes "site_fails s w = Some e" and "\<not> tolerated s e"
  shows "fatal (site_name s) e (site_calls s) w (site_code s w)"
proof (cases s)
  case Clock
  with assms show ?thesis
    by (auto simp: site_fails_def site_code_def site_name_def site_calls_def fatal_def
        nsecs_now_def sys_defs Let_def split: sys.splits)
next
  case Fork_in_act4
  with assms show ?thesis
    by (auto simp: site_fails_def site_code_def site_name_def site_calls_def fatal_def
        fork_fails_def act_fork_parent_return_def sys_defs Let_def split: sys.splits)
next
  case Wait_in_teardown4
  with assms show ?thesis
    by (auto simp: site_fails_def site_code_def site_name_def site_calls_def fatal_def
        wait_fails_def teardown_wait_for_last_child_def sys_defs Let_def
        split: if_splits prod.splits)
next
  case Fork_in_setup5
  with assms show ?thesis
    by (auto simp: site_fails_def site_code_def site_name_def site_calls_def fatal_def
        fork_fails_def setup_waitpid_ready_def sys_defs Let_def split: sys.splits)
next
  case Wait_in_act5
  with assms show ?thesis
    by (auto simp: site_fails_def site_code_def site_name_def site_calls_def fatal_def
        wait_fails_def act_waitpid_ready_def sys_defs Let_def
        split: if_splits prod.splits)
next
  case Wait_in_teardown5
  with assms show ?thesis
    by (auto simp: site_fails_def site_code_def site_name_def site_calls_def fatal_def
        tolerated_def wait_fails_def teardown_wait_ready_def sys_defs Let_def
        split: if_splits prod.splits)
next
  case Fork_in_act6
  with assms show ?thesis
    by (auto simp: site_fails_def site_code_def site_name_def site_calls_def fatal_def
        fork_fails_def act_fork_child_exit_wait_def sys_defs Let_def split: sys.splits)
next
  case Wait_in_act6
  with assms show ?thesis
    by (auto simp: site_fails_def site_code_def site_name_def site_calls_def fatal_def
        wait_fails_def act_fork_child_exit_wait_def sys_defs Let_def
        split: if_splits prod.splits sys.splits)
next
  case System_in_act7
  with assms show ?thesis
    by (auto simp: site_fails_def site_code_def site_name_def site_calls_def fatal_def
        act_system_true_def sys_defs Let_def split: sys.splits)
next
  case Mkdtemp_in_act8
  with assms show ?thesis
    by (auto simp: site_fails_def site_code_def site_name_def site_calls_def fatal_def
        act_mkdir_rmdir_def sys_defs Let_def split: sys.splits if_splits prod.splits option.splits)
next
  case Rmdir_in_act8
  with assms show ?thesis
    by (auto simp: site_fails_def site_code_def site_name_def site_calls_def fatal_def
        act_mkdir_rmdir_def sys_defs Let_def split: sys.splits if_splits prod.splits option.splits)
qed

text \<open>The harness passes a stop on as it is.\<close>

lemma measure_c_stops_where_a_call_stops:
  assumes "iters \<noteq> 0" and "measure_c label su a td iters so w = Stop c w'"
  shows "\<exists>w1. nsecs_now w1 = Stop c w' \<or> call_opt su w1 = Stop c w' \<or> a w1 = Stop c w'
      \<or> call_opt td w1 = Stop c w'"
proof -
  let ?E = "\<lambda>c w'. \<exists>w1. nsecs_now w1 = Stop c w' \<or> call_opt su w1 = Stop c w'
      \<or> a w1 = Stop c w' \<or> call_opt td w1 = Stop c w'"
  let ?T = "\<lambda>w :: world. True"
  have 1: "triple ?T nsecs_now (\<lambda>_. ?T) ?E"
    by (rule tripleI) (auto split: outcome.splits)
  have 2: "triple ?T (call_opt su) (\<lambda>_. ?T) ?E"
    by (rule tripleI) (auto split: outcome.splits)
  have 3: "triple ?T a (\<lambda>_. ?T) ?E"
    by (rule tripleI) (auto split: outcome.splits)
  have 4: "triple ?T (call_opt td) (\<lambda>_. ?T) ?E"
    by (rule tripleI) (auto split: outcome.splits)
  from triple_Stop [OF measure_c_triple [OF assms(1) 2 3 4 4 1 1] TrueI assms(2)]
  show ?thesis .
qed

lemma main_Stop:
  assumes "main argv w = Stop c w'"
  shows "stdout w' = stdout w \<and> (c = 1 \<or> c = 0 \<and> in_child w')"
proof -
  from assms obtain sc where t: "scenario_table (atoi (argv ! 1)) = Some sc"
    and r: "run_scenario sc (startup w) = Stop c w'"
    by (auto simp: main_by_table break_return0_def bind_eq_Stop
        split: if_splits option.splits)
  have "quiet (stdout w) (startup w)"
    by (simp add: quiet_def startup_fields)
  from triple_Stop [OF run_scenario_quiet [OF t] this r] show ?thesis
    by (simp add: quiet_stop_def)
qed

section \<open>Children and registers\<close>

text \<open>
  \<open>peak_children\<close> is a high-water mark: once it bounds the table of unreaped
  children, it bounds it after every \<open>fork\<close> and \<open>waitpid\<close>, the only calls that
  change the table.
\<close>

lemma peak_bounds_table:
  assumes "length (children w) \<le> peak_children w"
  shows "length (children (snd (sys_fork w))) \<le> peak_children (snd (sys_fork w))"
    and "length (children (snd (sys_waitpid pid w))) \<le> peak_children (snd (sys_waitpid pid w))"
  using assms
  by (auto simp: sys_defs Let_def length_remove1 split: sys.splits list.splits)

text \<open>The children of the process, callback by callback.\<close>

lemma nsecs_now_no_child: "triple no_child nsecs_now (\<lambda>_. no_child) peak_ok"
  by (auto simp: triple_def no_child_def peak_ok_def nsecs_now_def sys_defs Let_def
      split: sys.splits)

lemma nsecs_now_one_child: "triple (one_child reg) nsecs_now (\<lambda>_. one_child reg) peak_ok"
  if "\<And>w n. reg (w\<lparr>clock_calls := n\<rparr>) = reg w"
  using that
  by (auto simp: triple_def one_child_def peak_ok_def nsecs_now_def sys_defs Let_def
      split: sys.splits)

lemma act4_children:
  "triple no_child act_fork_parent_return (\<lambda>_. one_child last_child) peak_ok"
  by (auto simp: triple_def no_child_def one_child_def peak_ok_def act_fork_parent_return_def
      sys_defs Let_def split: sys.splits)

lemma teardown4_children:
  "triple (one_child last_child) teardown_wait_for_last_child (\<lambda>_. no_child) peak_ok"
  by (auto simp: triple_def no_child_def one_child_def peak_ok_def
      teardown_wait_for_last_child_def sys_defs Let_def split: sys.splits)

lemma teardown4_children_idle:
  "triple no_child teardown_wait_for_last_child (\<lambda>_. no_child) peak_ok"
  by (auto simp: triple_def no_child_def peak_ok_def
      teardown_wait_for_last_child_def sys_defs Let_def split: sys.splits)

lemma setup5_children:
  "triple no_child setup_waitpid_ready (\<lambda>_. one_child ready_zombie) peak_ok"
  by (auto simp: triple_def no_child_def one_child_def peak_ok_def setup_waitpid_ready_def
      sys_defs Let_def split: sys.splits)

lemma act5_children:
  "triple (one_child ready_zombie) act_waitpid_ready (\<lambda>_. no_child) peak_ok"
  by (auto simp: triple_def no_child_def one_child_def peak_ok_def act_waitpid_ready_def
      sys_defs Let_def split: sys.splits)

lemma teardown5_children:
  "triple (one_child ready_zombie) teardown_wait_ready (\<lambda>_. no_child) peak_ok"
  by (auto simp: triple_def no_child_def one_child_def peak_ok_def teardown_wait_ready_def
      sys_defs Let_def EINTR_def ECHILD_def split: sys.splits)

lemma teardown5_children_idle:
  "triple no_child teardown_wait_ready (\<lambda>_. no_child) peak_ok"
  by (auto simp: triple_def no_child_def peak_ok_def teardown_wait_ready_def
      sys_defs Let_def split: sys.splits)

lemma act6_children:
  "triple no_child act_fork_child_exit_wait (\<lambda>_. no_child) peak_ok"
  by (auto simp: triple_def no_child_def peak_ok_def act_fork_child_exit_wait_def
      sys_defs Let_def split: sys.splits)

lemma fork_scenarios_children:
  assumes t: "scenario_table k = Some sc" and k: "4 \<le> k" "k \<le> 6" and nz: "iters \<noteq> 0"
  shows "triple no_child
     (measure_c label (sc_setup sc) (sc_action sc) (sc_teardown sc) iters so)
     (\<lambda>_ w'. children w' = [] \<and> peak_children w' \<le> 1) peak_ok"
proof -
  from k have "k = 4 \<or> k = 5 \<or> k = 6" by arith
  then have "triple no_child
     (measure_c label (sc_setup sc) (sc_action sc) (sc_teardown sc) iters so)
     (\<lambda>_ w'. \<exists>w1 mean ovh. no_child w1
         \<and> w' = w1\<lparr>stdout := stdout w1 @ measure_report label iters so mean ovh\<rparr>) peak_ok"
  proof (elim disjE)
    assume "k = 4"
    with t have sc: "sc_setup sc = None" "sc_action sc = act_fork_parent_return"
        "sc_teardown sc = Some teardown_wait_for_last_child"
      by (auto simp: scenario_table_def)
    show ?thesis
      unfolding sc
      by (rule measure_c_triple [where ?P1.0 = no_child and ?P2.0 = "one_child last_child",
            OF nz call_opt_None_triple act4_children
              call_opt_Some_triple [OF teardown4_children]
              call_opt_Some_triple [OF teardown4_children_idle]
              nsecs_now_no_child nsecs_now_one_child])
        simp
  next
    assume "k = 5"
    with t have sc: "sc_setup sc = Some setup_waitpid_ready" "sc_action sc = act_waitpid_ready"
        "sc_teardown sc = Some teardown_wait_ready"
      by (auto simp: scenario_table_def)
    show ?thesis
      unfolding sc
      by (rule measure_c_triple [where ?P1.0 = "one_child ready_zombie" and ?P2.0 = no_child,
            OF nz call_opt_Some_triple [OF setup5_children] act5_children
              call_opt_Some_triple [OF teardown5_children_idle]
              call_opt_Some_triple [OF teardown5_children]
              nsecs_now_one_child nsecs_now_no_child])
        simp
  next
    assume "k = 6"
    with t have sc: "sc_setup sc = None" "sc_action sc = act_fork_child_exit_wait"
        "sc_teardown sc = None"
      by (auto simp: scenario_table_def)
    show ?thesis
      unfolding sc
      by (rule measure_c_triple [where ?P1.0 = no_child and ?P2.0 = no_child,
            OF nz call_opt_None_triple act6_children call_opt_None_triple call_opt_None_triple
              nsecs_now_no_child nsecs_now_no_child])
  qed
  then show ?thesis
    by (rule triple_post) (auto simp: no_child_def)
qed

text \<open>The three callbacks of scenario 5.\<close>

lemma setup5_forks_sleeps_records:
  assumes "fork_res (os w) (fork_calls w) = Done p" and "0 < p"
  shows "\<exists>w'. setup_waitpid_ready w = Ret () w' \<and> ready_zombie w' = int p
      \<and> children w' = children w @ [int p] \<and> sleeps w' = sleeps w @ [(0, 2000000)]"
  using assms
  by (auto simp: setup_waitpid_ready_def sys_defs Let_def split: sys.splits)

lemma act5_mismatch_fatal:
  assumes "fst (fst (sys_waitpid (ready_zombie w) w)) \<noteq> ready_zombie w"
  shows "\<exists>w'. act_waitpid_ready w = Stop 1 w'
      \<and> stderr w' = stderr w @ [Err_perror ''waitpid'' (errno w')]"
  using assms
  by (auto simp: act_waitpid_ready_def sys_defs Let_def split: prod.splits if_splits list.splits)

lemma act5_reaps_recorded:
  assumes "fst (fst (sys_waitpid (ready_zombie w) w)) = ready_zombie w" and "0 < ready_zombie w"
  shows "\<exists>w'. act_waitpid_ready w = Ret () w' \<and> ready_zombie w \<in> set (children w)
      \<and> children w' = remove1 (ready_zombie w) (children w)
      \<and> waitpid_calls w' = Suc (waitpid_calls w) \<and> ready_zombie w' = ready_zombie w"
  using assms
  by (auto simp: act_waitpid_ready_def sys_defs Let_def split: prod.splits if_splits)

lemma teardown5_tolerates_echild:
  assumes "0 < ready_zombie w" and "wait_fails (ready_zombie w) w = Some ECHILD"
  shows "\<exists>w'. teardown_wait_ready w = Ret () w' \<and> stderr w' = stderr w
      \<and> ready_zombie w' = - 1"
  using assms
  by (auto simp: teardown_wait_ready_def wait_fails_def sys_defs Let_def
      split: prod.splits if_splits)

lemma tolerated_not_fatal:
  assumes "site_fails s w = Some e" and "tolerated s e"
  shows "\<not> fatal (site_name s) e (site_calls s) w (site_code s w)"
  using assms teardown5_tolerates_echild [of w]
  by (auto simp: tolerated_def site_fails_def site_code_def fatal_def split: if_splits)

text \<open>The two child-pid registers.\<close>

lemma teardown4_clears:
  assumes "last_child w = - 1 \<or> 0 < last_child w" and "teardown_wait_for_last_child w = Ret u w'"
  shows "last_child w' = - 1"
  using assms
  by (auto simp: teardown_wait_for_last_child_def sys_defs Let_def
      split: if_splits prod.splits)

lemma teardown5_clears:
  assumes "ready_zombie w = - 1 \<or> 0 < ready_zombie w" and "teardown_wait_ready w = Ret u w'"
  shows "ready_zombie w' = - 1"
  using assms
  by (auto simp: teardown_wait_ready_def sys_defs Let_def split: if_splits prod.splits)

lemma act5_keeps_register:
  assumes "act_waitpid_ready w = Ret u w'"
  shows "ready_zombie w' = ready_zombie w"
  using assms
  by (auto simp: act_waitpid_ready_def sys_defs Let_def split: if_splits prod.splits list.splits)

lemma nsecs_now_reg:
  assumes "\<And>w n. reg (w\<lparr>clock_calls := n\<rparr>) = reg w"
  shows "triple (reg_clear reg) nsecs_now (\<lambda>_. reg_clear reg) any_stop"
    and "triple (reg_set reg) nsecs_now (\<lambda>_. reg_set reg) any_stop"
  using assms
  by (auto simp: triple_def reg_clear_def reg_set_def any_stop_def nsecs_now_def sys_defs Let_def
      split: sys.splits)

lemma act4_sets:
  "triple (reg_clear last_child) act_fork_parent_return (\<lambda>_. reg_set last_child) any_stop"
  by (auto simp: triple_def reg_set_def any_stop_def act_fork_parent_return_def sys_defs Let_def
      split: sys.splits)

lemma teardown4_clears_set:
  "triple (reg_set last_child) teardown_wait_for_last_child (\<lambda>_. reg_clear last_child) any_stop"
  by (auto simp: triple_def reg_set_def reg_clear_def any_stop_def
      teardown_wait_for_last_child_def sys_defs Let_def split: sys.splits)

lemma teardown4_clears_clear:
  "triple (reg_clear last_child) teardown_wait_for_last_child (\<lambda>_. reg_clear last_child)
     any_stop"
  by (auto simp: triple_def reg_clear_def any_stop_def
      teardown_wait_for_last_child_def sys_defs Let_def split: sys.splits)

lemma setup5_sets:
  "triple (reg_clear ready_zombie) setup_waitpid_ready (\<lambda>_. reg_set ready_zombie) any_stop"
  by (auto simp: triple_def reg_set_def any_stop_def setup_waitpid_ready_def sys_defs Let_def
      split: sys.splits)

lemma act5_keeps_set:
  "triple (reg_set ready_zombie) act_waitpid_ready (\<lambda>_. reg_set ready_zombie) any_stop"
  by (auto simp: triple_def reg_set_def any_stop_def act_waitpid_ready_def sys_defs Let_def
      split: sys.splits list.splits)

lemma teardown5_clears_set:
  "triple (reg_set ready_zombie) teardown_wait_ready (\<lambda>_. reg_clear ready_zombie) any_stop"
  by (auto simp: triple_def reg_set_def reg_clear_def any_stop_def
      teardown_wait_ready_def sys_defs Let_def split: sys.splits)

lemma scenario_4_cycles_clear:
  "triple (reg_clear last_child)
     (warm_cycle None act_fork_parent_return (Some teardown_wait_for_last_child) u)
     (\<lambda>_. reg_clear last_child) any_stop"
  "triple (reg_clear last_child)
     (timed_cycle None act_fork_parent_return (Some teardown_wait_for_last_child) tot)
     (\<lambda>_. reg_clear last_child) any_stop"
  "triple (reg_clear last_child)
     (overhead_cycle None (Some teardown_wait_for_last_child) tot)
     (\<lambda>_. reg_clear last_child) any_stop"
proof -
  show "triple (reg_clear last_child)
     (warm_cycle None act_fork_parent_return (Some teardown_wait_for_last_child) u)
     (\<lambda>_. reg_clear last_child) any_stop"
    by (rule warm_cycle_triple [OF call_opt_None_triple act4_sets
          call_opt_Some_triple [OF teardown4_clears_set]])
  show "triple (reg_clear last_child)
     (timed_cycle None act_fork_parent_return (Some teardown_wait_for_last_child) tot)
     (\<lambda>_. reg_clear last_child) any_stop"
    by (rule timed_cycle_triple [OF call_opt_None_triple act4_sets
          call_opt_Some_triple [OF teardown4_clears_set] nsecs_now_reg(1) nsecs_now_reg(2)])
      simp_all
  show "triple (reg_clear last_child)
     (overhead_cycle None (Some teardown_wait_for_last_child) tot)
     (\<lambda>_. reg_clear last_child) any_stop"
    by (rule overhead_cycle_triple [OF call_opt_None_triple
          call_opt_Some_triple [OF teardown4_clears_clear] nsecs_now_reg(1)])
      simp
qed

lemma scenario_5_cycles_clear:
  "triple (reg_clear ready_zombie)
     (warm_cycle (Some setup_waitpid_ready) act_waitpid_ready (Some teardown_wait_ready) u)
     (\<lambda>_. reg_clear ready_zombie) any_stop"
  "triple (reg_clear ready_zombie)
     (timed_cycle (Some setup_waitpid_ready) act_waitpid_ready (Some teardown_wait_ready) tot)
     (\<lambda>_. reg_clear ready_zombie) any_stop"
  "triple (reg_clear ready_zombie)
     (overhead_cycle (Some setup_waitpid_ready) (Some teardown_wait_ready) tot)
     (\<lambda>_. reg_clear ready_zombie) any_stop"
proof -
  show "triple (reg_clear ready_zombie)
     (warm_cycle (Some setup_waitpid_ready) act_waitpid_ready (Some teardown_wait_ready) u)
     (\<lambda>_. reg_clear ready_zombie) any_stop"
    by (rule warm_cycle_triple [OF call_opt_Some_triple [OF setup5_sets] act5_keeps_set
          call_opt_Some_triple [OF teardown5_clears_set]])
  show "triple (reg_clear ready_zombie)
     (timed_cycle (Some setup_waitpid_ready) act_waitpid_ready (Some teardown_wait_ready) tot)
     (\<lambda>_. reg_clear ready_zombie) any_stop"
    by (rule timed_cycle_triple [OF call_opt_Some_triple [OF setup5_sets] act5_keeps_set
          call_opt_Some_triple [OF teardown5_clears_set] nsecs_now_reg(2) nsecs_now_reg(2)])
      simp_all
  show "triple (reg_clear ready_zombie)
     (overhead_cycle (Some setup_waitpid_ready) (Some teardown_wait_ready) tot)
     (\<lambda>_. reg_clear ready_zombie) any_stop"
    by (rule overhead_cycle_triple [OF call_opt_Some_triple [OF setup5_sets]
          call_opt_Some_triple [OF teardown5_clears_set] nsecs_now_reg(2)])
      simp
qed

lemma scenario_5_reissued_wait:
  assumes "children w = []" and "setup_waitpid_ready w = Ret u w1"
    and "act_waitpid_ready w1 = Ret u' w2"
  shows "0 < ready_zombie w2 \<and> ready_zombie w2 \<notin> set (children w2)
      \<and> (wait_fails (ready_zombie w2) w2 = Some ECHILD
          \<or> wait_fails (ready_zombie w2) w2 = Some EINTR)"
  using assms
  by (auto simp: setup_waitpid_ready_def act_waitpid_ready_def wait_fails_def sys_defs Let_def
      split: sys.splits if_splits)

lemma scenario_5_overhead_reaps:
  assumes "children w = []" and "setup_waitpid_ready w = Ret u w1"
    and "teardown_wait_ready w1 = Ret u' w3"
  shows "children w1 = [ready_zombie w1] \<and> wait_fails (ready_zombie w1) w1 = None
      \<and> children w3 = []"
  using assms
  by (auto simp: setup_waitpid_ready_def teardown_wait_ready_def wait_fails_def sys_defs Let_def
      EINTR_def ECHILD_def split: sys.splits if_splits)

section \<open>The helper of fork_run.c\<close>

lemmas fd_defs = sys_open_def sys_dup2_def sys_close_def sys_malloc_def sys_exec_def
  dup2_if_open_def close_if_open_def

text \<open>The helper: what its system calls leave alone, and its two loops.\<close>

lemma close_if_open_fields [simp]:
  "os (close_if_open fd w) = os w" "stderr (close_if_open fd w) = stderr w"
  "stdout (close_if_open fd w) = stdout w" "fork_calls (close_if_open fd w) = fork_calls w"
  by (simp_all add: fd_defs split: option.splits)


lemma sys_waitpid_fields [simp]:
  "os (snd (sys_waitpid pid w)) = os w" "stderr (snd (sys_waitpid pid w)) = stderr w"
  "stdout (snd (sys_waitpid pid w)) = stdout w"
  by (simp_all add: sys_defs Let_def split: list.splits)


lemma sys_malloc_fields [simp]:
  "os (snd (sys_malloc w)) = os w" "stderr (snd (sys_malloc w)) = stderr w"
  "stdout (snd (sys_malloc w)) = stdout w"
  by (simp_all add: fd_defs)







section \<open>The claims about the harness\<close>

text \<open>
  Claim C1. Whenever \<open>measure\<close> returns, what it has done is: the warm-up cycles,
  then exactly \<open>iters\<close> timed cycles, then the overhead cycles, then the report,
  each step starting in the world the step before it has left. A timed cycle is: the
  set-up (if there is one), then the start reading of the clock, then the action, then
  the end reading, then the tear-down (if there is one). The report begins with the
  label, the line \<open>iters\<close> with the iteration count and the line \<open>mean_ns_total\<close>
  with the quotient of the sum of \<open>end - start\<close> over the readings of these timed
  cycles, and of nothing else, by the iteration count: one division, of the final sum,
  printed after the last cycle of the last phase.
\<close>

theorem timed_phase:
  assumes "measure_c label su a td iters so w = Ret u w'"
  shows "\<exists>wA tss wB tso wC post.
      warm_chain su a td (unat iters div 10 + 1) w wA
    \<and> chain (timed_step su a td) tss wA wB
    \<and> length tss = unat iters
    \<and> chain (overhead_step su td) tso wB wC
    \<and> w' = wC\<lparr>stdout := stdout wC @ [Line_label label, Line_iters iters,
          Line_mean_ns_total (D_div (D_of_u64 (elapsed_sum tss)) (D_of_u64 iters))] @ post\<rparr>"
proof -
  from measure_c_Ret [OF assms] obtain wA tss wB tso wC where
    c: "warm_chain su a td (unat iters div 10 + 1) w wA"
      "chain (timed_step su a td) tss wA wB" "length tss = unat iters"
      "chain (overhead_step su td) tso wB wC"
    and w: "w' = wC\<lparr>stdout := stdout wC @ measure_report label iters so (mean_of iters tss)
                 (if so then mean_of iters tso else D_zero)\<rparr>"
    by blast
  from w have "w' = wC\<lparr>stdout := stdout wC @ [Line_label label, Line_iters iters,
          Line_mean_ns_total (D_div (D_of_u64 (elapsed_sum tss)) (D_of_u64 iters))]
        @ ((if so then [Line_mean_ns_overhead (mean_of iters tso),
              Line_mean_ns_subtracted (D_sub (mean_of iters tss) (mean_of iters tso))]
           else []) @ [Line_blank])\<rparr>"
    by (simp add: measure_report_def mean_of_def)
  with c show ?thesis by blast
qed

text \<open>
  Two iterations with the three callbacks that note their place, on the system
  \<open>os_ok\<close>, without the overhead phase: one warm-up cycle, in which no clock is read,
  then two timed cycles, in each of which the set-up stands before the start reading,
  the action between the two readings and the tear-down after the end reading.
\<close>

lemma run_small:
  "measure_c ''x'' (Some probe_setup) probe_action (Some probe_teardown) 2 False w_ok =
     Ret ()
       (w_ok\<lparr>clock_calls := 4,
             stderr := [Err_perror ''set-up'' 0, Err_perror ''action'' 0,
                        Err_perror ''tear-down'' 0,
                        Err_perror ''set-up'' 0, Err_perror ''action'' 1,
                        Err_perror ''tear-down'' 2,
                        Err_perror ''set-up'' 2, Err_perror ''action'' 3,
                        Err_perror ''tear-down'' 4],
             stdout := [Line_label ''x'', Line_iters 2,
               Line_mean_ns_total (D_div (D_of_u64 14) (D_of_u64 2)), Line_blank]\<rparr>)"
  by (simp add: harness_defs probe_setup_def probe_action_def probe_teardown_def probe_def
      w_ok_def os_ok_def initial_world_def)

theorem timed_phase_witness:
  "measure_c ''x'' (Some probe_setup) probe_action (Some probe_teardown) 2 False w_ok =
     Ret ()
       (w_ok\<lparr>clock_calls := 4,
             stderr := [Err_perror ''set-up'' 0, Err_perror ''action'' 0,
                        Err_perror ''tear-down'' 0,
                        Err_perror ''set-up'' 0, Err_perror ''action'' 1,
                        Err_perror ''tear-down'' 2,
                        Err_perror ''set-up'' 2, Err_perror ''action'' 3,
                        Err_perror ''tear-down'' 4],
             stdout := [Line_label ''x'', Line_iters 2,
               Line_mean_ns_total (D_div (D_of_u64 14) (D_of_u64 2)), Line_blank]\<rparr>)
   \<and> (\<exists>wA tss wB tso wC post.
      warm_chain (Some probe_setup) probe_action (Some probe_teardown)
        (unat (2 :: u64) div 10 + 1) w_ok wA
    \<and> chain (timed_step (Some probe_setup) probe_action (Some probe_teardown)) tss wA wB
    \<and> length tss = unat (2 :: u64)
    \<and> chain (overhead_step (Some probe_setup) (Some probe_teardown)) tso wB wC
    \<and> w_ok\<lparr>clock_calls := 4,
             stderr := [Err_perror ''set-up'' 0, Err_perror ''action'' 0,
                        Err_perror ''tear-down'' 0,
                        Err_perror ''set-up'' 0, Err_perror ''action'' 1,
                        Err_perror ''tear-down'' 2,
                        Err_perror ''set-up'' 2, Err_perror ''action'' 3,
                        Err_perror ''tear-down'' 4],
             stdout := [Line_label ''x'', Line_iters 2,
               Line_mean_ns_total (D_div (D_of_u64 14) (D_of_u64 2)), Line_blank]\<rparr>
      = wC\<lparr>stdout := stdout wC @ [Line_label ''x'', Line_iters 2,
          Line_mean_ns_total (D_div (D_of_u64 (elapsed_sum tss)) (D_of_u64 2))] @ post\<rparr>)"
  by (rule conjI [OF run_small timed_phase [OF run_small]])

text \<open>
  Claim C2. Whenever \<open>measure\<close> returns, the timed cycles are followed by exactly
  \<open>iters\<close> overhead cycles when the flag is set, and by none when it is not. An
  overhead cycle is: the same set-up (if there is one), then the two readings of the
  clock one directly after the other, then the same tear-down (if there is one); the
  action does not run. With the flag set the report has the two further lines
  \<open>mean_ns_overhead\<close>, the quotient of the sum of \<open>end - start\<close> over the readings
  of the overhead cycles by the iteration count, and \<open>mean_ns_subtracted\<close>, the
  difference of the two values printed before it; without the flag the report is the
  label, \<open>iters\<close>, \<open>mean_ns_total\<close> and the empty line. The values of type
  \<open>double\<close> are the expressions the program computes; their rounding and the digits
  \<open>printf\<close> shows are not interpreted.
\<close>

theorem overhead_phase_and_report:
  assumes "measure_c label su a td iters so w = Ret u w'"
  shows "\<exists>wA tss wB tso wC mean.
      warm_chain su a td (unat iters div 10 + 1) w wA
    \<and> chain (timed_step su a td) tss wA wB
    \<and> chain (overhead_step su td) tso wB wC
    \<and> length tso = (if so then unat iters else 0)
    \<and> mean = D_div (D_of_u64 (elapsed_sum tss)) (D_of_u64 iters)
    \<and> w' = wC\<lparr>stdout := stdout wC
        @ [Line_label label, Line_iters iters, Line_mean_ns_total mean]
        @ (if so
           then [Line_mean_ns_overhead (D_div (D_of_u64 (elapsed_sum tso)) (D_of_u64 iters)),
                 Line_mean_ns_subtracted
                   (D_sub mean (D_div (D_of_u64 (elapsed_sum tso)) (D_of_u64 iters)))]
           else [])
        @ [Line_blank]\<rparr>"
proof -
  from measure_c_Ret [OF assms] obtain wA tss wB tso wC where
    c: "warm_chain su a td (unat iters div 10 + 1) w wA"
      "chain (timed_step su a td) tss wA wB"
      "chain (overhead_step su td) tso wB wC" "length tso = (if so then unat iters else 0)"
    and w: "w' = wC\<lparr>stdout := stdout wC @ measure_report label iters so (mean_of iters tss)
                 (if so then mean_of iters tso else D_zero)\<rparr>"
    by blast
  from w have "w' = wC\<lparr>stdout := stdout wC
        @ [Line_label label, Line_iters iters, Line_mean_ns_total (mean_of iters tss)]
        @ (if so
           then [Line_mean_ns_overhead (D_div (D_of_u64 (elapsed_sum tso)) (D_of_u64 iters)),
                 Line_mean_ns_subtracted
                   (D_sub (mean_of iters tss) (D_div (D_of_u64 (elapsed_sum tso)) (D_of_u64 iters)))]
           else [])
        @ [Line_blank]\<rparr>"
    by (simp add: measure_report_def mean_of_def)
  with c have "warm_chain su a td (unat iters div 10 + 1) w wA
    \<and> chain (timed_step su a td) tss wA wB
    \<and> chain (overhead_step su td) tso wB wC
    \<and> length tso = (if so then unat iters else 0)
    \<and> mean_of iters tss = D_div (D_of_u64 (elapsed_sum tss)) (D_of_u64 iters)
    \<and> w' = wC\<lparr>stdout := stdout wC
        @ [Line_label label, Line_iters iters, Line_mean_ns_total (mean_of iters tss)]
        @ (if so
           then [Line_mean_ns_overhead (D_div (D_of_u64 (elapsed_sum tso)) (D_of_u64 iters)),
                 Line_mean_ns_subtracted
                   (D_sub (mean_of iters tss) (D_div (D_of_u64 (elapsed_sum tso)) (D_of_u64 iters)))]
           else [])
        @ [Line_blank]\<rparr>"
    by (simp add: mean_of_def)
  then show ?thesis by blast
qed

text \<open>
  One iteration with the same three callbacks and the overhead phase: one warm-up cycle,
  one timed cycle, and one overhead cycle in which the set-up stands before the two
  readings, the tear-down after them, and the action does not appear.
\<close>

lemma run_small_overhead:
  "measure_c ''y'' (Some probe_setup) probe_action (Some probe_teardown) 1 True w_ok =
     Ret ()
       (w_ok\<lparr>clock_calls := 4,
             stderr := [Err_perror ''set-up'' 0, Err_perror ''action'' 0,
                        Err_perror ''tear-down'' 0,
                        Err_perror ''set-up'' 0, Err_perror ''action'' 1,
                        Err_perror ''tear-down'' 2,
                        Err_perror ''set-up'' 2, Err_perror ''tear-down'' 4],
             stdout := [Line_label ''y'', Line_iters 1,
               Line_mean_ns_total (D_div (D_of_u64 7) (D_of_u64 1)),
               Line_mean_ns_overhead (D_div (D_of_u64 7) (D_of_u64 1)),
               Line_mean_ns_subtracted
                 (D_sub (D_div (D_of_u64 7) (D_of_u64 1)) (D_div (D_of_u64 7) (D_of_u64 1))),
               Line_blank]\<rparr>)"
  by (simp add: harness_defs probe_setup_def probe_action_def probe_teardown_def probe_def
      w_ok_def os_ok_def initial_world_def)

theorem overhead_phase_and_report_witness:
  "measure_c ''y'' (Some probe_setup) probe_action (Some probe_teardown) 1 True w_ok =
     Ret ()
       (w_ok\<lparr>clock_calls := 4,
             stderr := [Err_perror ''set-up'' 0, Err_perror ''action'' 0,
                        Err_perror ''tear-down'' 0,
                        Err_perror ''set-up'' 0, Err_perror ''action'' 1,
                        Err_perror ''tear-down'' 2,
                        Err_perror ''set-up'' 2, Err_perror ''tear-down'' 4],
             stdout := [Line_label ''y'', Line_iters 1,
               Line_mean_ns_total (D_div (D_of_u64 7) (D_of_u64 1)),
               Line_mean_ns_overhead (D_div (D_of_u64 7) (D_of_u64 1)),
               Line_mean_ns_subtracted
                 (D_sub (D_div (D_of_u64 7) (D_of_u64 1)) (D_div (D_of_u64 7) (D_of_u64 1))),
               Line_blank]\<rparr>)
   \<and> (\<exists>wA tss wB tso wC mean.
      warm_chain (Some probe_setup) probe_action (Some probe_teardown)
        (unat (1 :: u64) div 10 + 1) w_ok wA
    \<and> chain (timed_step (Some probe_setup) probe_action (Some probe_teardown)) tss wA wB
    \<and> chain (overhead_step (Some probe_setup) (Some probe_teardown)) tso wB wC
    \<and> length tso = (if True then unat (1 :: u64) else 0)
    \<and> mean = D_div (D_of_u64 (elapsed_sum tss)) (D_of_u64 1)
    \<and> w_ok\<lparr>clock_calls := 4,
             stderr := [Err_perror ''set-up'' 0, Err_perror ''action'' 0,
                        Err_perror ''tear-down'' 0,
                        Err_perror ''set-up'' 0, Err_perror ''action'' 1,
                        Err_perror ''tear-down'' 2,
                        Err_perror ''set-up'' 2, Err_perror ''tear-down'' 4],
             stdout := [Line_label ''y'', Line_iters 1,
               Line_mean_ns_total (D_div (D_of_u64 7) (D_of_u64 1)),
               Line_mean_ns_overhead (D_div (D_of_u64 7) (D_of_u64 1)),
               Line_mean_ns_subtracted
                 (D_sub (D_div (D_of_u64 7) (D_of_u64 1)) (D_div (D_of_u64 7) (D_of_u64 1))),
               Line_blank]\<rparr>
      = wC\<lparr>stdout := stdout wC
        @ [Line_label ''y'', Line_iters 1, Line_mean_ns_total mean]
        @ (if True
           then [Line_mean_ns_overhead (D_div (D_of_u64 (elapsed_sum tso)) (D_of_u64 1)),
                 Line_mean_ns_subtracted
                   (D_sub mean (D_div (D_of_u64 (elapsed_sum tso)) (D_of_u64 1)))]
           else [])
        @ [Line_blank]\<rparr>)"
  by (rule conjI [OF run_small_overhead overhead_phase_and_report [OF run_small_overhead]])

text \<open>
  Claim C3, amended. The warm-up phase runs to its end exactly when \<open>iters / 10 + 1\<close>
  cycles (integer division) run to their end one after the other, each being the set-up
  (if there is one), then the action, then the tear-down (if there is one), each of
  them starting in the world the one before it has left: the harness reads no clock and
  keeps no value in this phase. The claim's \<open>max(iters / 10, 1)\<close> is one cycle less
  from 10 iterations on.
\<close>

theorem warm_up_cycles:
  "warm_up su a td iters w = Ret u w' \<longleftrightarrow>
   warm_chain su a td (unat iters div 10 + 1) w w'"
  by (rule warm_up_Ret)

text \<open>
  With 10 iterations the warm-up runs two cycles, where the claim says one: each of the
  three callbacks has written two lines, and no clock has been read.
\<close>

lemma warm_up_10:
  "warm_up (Some probe_setup) probe_action (Some probe_teardown) 10 w_ok =
     Ret ()
       (w_ok\<lparr>stderr := [Err_perror ''set-up'' 0, Err_perror ''action'' 0,
                         Err_perror ''tear-down'' 0,
                         Err_perror ''set-up'' 0, Err_perror ''action'' 0,
                         Err_perror ''tear-down'' 0]\<rparr>)"
  by (simp add: harness_defs probe_setup_def probe_action_def probe_teardown_def probe_def
      w_ok_def os_ok_def initial_world_def)

theorem warm_up_cycles_witness:
  "warm_up (Some probe_setup) probe_action (Some probe_teardown) 10 w_ok =
     Ret ()
       (w_ok\<lparr>stderr := [Err_perror ''set-up'' 0, Err_perror ''action'' 0,
                         Err_perror ''tear-down'' 0,
                         Err_perror ''set-up'' 0, Err_perror ''action'' 0,
                         Err_perror ''tear-down'' 0]\<rparr>)
   \<and> warm_chain (Some probe_setup) probe_action (Some probe_teardown)
       (unat (10 :: u64) div 10 + 1) w_ok
       (w_ok\<lparr>stderr := [Err_perror ''set-up'' 0, Err_perror ''action'' 0,
                         Err_perror ''tear-down'' 0,
                         Err_perror ''set-up'' 0, Err_perror ''action'' 0,
                         Err_perror ''tear-down'' 0]\<rparr>)"
  by (rule conjI [OF warm_up_10 iffD1 [OF warm_up_cycles warm_up_10]])

theorem warm_up_not_max_counterexample:
  "warm_up (Some probe_setup) probe_action (Some probe_teardown) 10 w_ok =
     Ret ()
       (w_ok\<lparr>stderr := [Err_perror ''set-up'' 0, Err_perror ''action'' 0,
                         Err_perror ''tear-down'' 0,
                         Err_perror ''set-up'' 0, Err_perror ''action'' 0,
                         Err_perror ''tear-down'' 0]\<rparr>)
   \<and> \<not> warm_chain (Some probe_setup) probe_action (Some probe_teardown)
       (max (unat (10 :: u64) div 10) 1) w_ok
       (w_ok\<lparr>stderr := [Err_perror ''set-up'' 0, Err_perror ''action'' 0,
                         Err_perror ''tear-down'' 0,
                         Err_perror ''set-up'' 0, Err_perror ''action'' 0,
                         Err_perror ''tear-down'' 0]\<rparr>)"
proof (rule conjI [OF warm_up_10])
  show "\<not> warm_chain (Some probe_setup) probe_action (Some probe_teardown)
       (max (unat (10 :: u64) div 10) 1) w_ok
       (w_ok\<lparr>stderr := [Err_perror ''set-up'' 0, Err_perror ''action'' 0,
                         Err_perror ''tear-down'' 0,
                         Err_perror ''set-up'' 0, Err_perror ''action'' 0,
                         Err_perror ''tear-down'' 0]\<rparr>)"
    by (simp add: warm_chain_def warm_step_def runs_opt_def
        probe_setup_def probe_action_def probe_teardown_def probe_def
        w_ok_def os_ok_def initial_world_def)
qed

text \<open>
  Claim C5. With an iteration count of 0, \<open>measure\<close> ends the process with status 2.
  The world it leaves differs from the one it found by the diagnostic on standard error
  only: no callback has run, the clock was not read, nothing was printed.
\<close>

theorem measure_zero_iterations:
  "measure_c label su a td 0 so w
     = Stop 2 (w\<lparr>stderr := stderr w @ [Err_text ''iters must be > 0'']\<rparr>)"
  by (simp add: measure_c_def eprint_def)

section \<open>The claims about the driver and about failures\<close>

text \<open>
  Claim C4, amended. The selector is what \<open>atoi\<close> reads from the argument: leading
  white space and one sign are skipped, the digits that follow are the number and any
  text after them is ignored. When there is not exactly one argument, or the number read
  is not in 1..8, \<open>main\<close> prints the usage line on standard error, reads no clock,
  prints nothing on standard output and returns 2. When the number read is in 1..8,
  \<open>main\<close> is one call of \<open>measure\<close> with the entry of that number in the scenario
  table; when that call returns, \<open>main\<close> returns 0 and standard output has grown by
  exactly one report, that of the chosen scenario.
\<close>

theorem main_selects_scenario:
  "(length argv \<noteq> 2 \<or> atoi (argv ! 1) < 1 \<or> 8 < atoi (argv ! 1) \<longrightarrow>
      (\<exists>w'. main argv w = Ret 2 w' \<and> stdout w' = stdout w \<and> clock_calls w' = clock_calls w
          \<and> stderr w' = stderr w @ [Err_text (''Usage: '' @ argv0 argv @ '' <scenario 1..8>'')]))
   \<and> (length argv = 2 \<and> 1 \<le> atoi (argv ! 1) \<and> atoi (argv ! 1) \<le> 8 \<longrightarrow>
      (\<exists>sc. scenario_table (atoi (argv ! 1)) = Some sc
          \<and> main argv w = break_return0 (run_scenario sc (startup w))))
   \<and> (length argv = 2 \<and> scenario_table (atoi (argv ! 1)) = Some sc
        \<and> run_scenario sc (startup w) = Ret u w' \<longrightarrow>
      main argv w = Ret 0 w'
      \<and> (\<exists>mean ovh. stdout w' = stdout w
            @ measure_report (sc_label sc) (sc_iters sc) (sc_subtract sc) mean ovh))"
proof (intro conjI impI)
  assume "length argv \<noteq> 2 \<or> atoi (argv ! 1) < 1 \<or> 8 < atoi (argv ! 1)"
  then have "main argv w = Ret 2 (usage (argv0 argv) w)
      \<or> main argv w = Ret 2 (usage (argv0 argv) (startup w))"
    by (auto simp: main_by_table scenario_table_None [symmetric] split: option.splits)
  then show "\<exists>w'. main argv w = Ret 2 w' \<and> stdout w' = stdout w \<and> clock_calls w' = clock_calls w
      \<and> stderr w' = stderr w @ [Err_text (''Usage: '' @ argv0 argv @ '' <scenario 1..8>'')]"
    by (auto simp: usage_fields startup_fields)
next
  assume a: "length argv = 2 \<and> 1 \<le> atoi (argv ! 1) \<and> atoi (argv ! 1) \<le> 8"
  then obtain sc where "scenario_table (atoi (argv ! 1)) = Some sc"
    using scenario_table_Some [of "atoi (argv ! 1)"] by blast
  with a show "\<exists>sc. scenario_table (atoi (argv ! 1)) = Some sc
      \<and> main argv w = break_return0 (run_scenario sc (startup w))"
    by (simp add: main_by_table)
next
  assume a: "length argv = 2 \<and> scenario_table (atoi (argv ! 1)) = Some sc
      \<and> run_scenario sc (startup w) = Ret u w'"
  then show "main argv w = Ret 0 w'"
    by (simp add: main_by_table break_return0_def)
  from a have t: "scenario_table (atoi (argv ! 1)) = Some sc"
    and r: "run_scenario sc (startup w) = Ret u w'"
    by simp_all
  have "quiet (stdout w) (startup w)"
    by (simp add: quiet_def startup_fields)
  from triple_Ret [OF run_scenario_quiet [OF t] this r]
  show "\<exists>mean ovh. stdout w' = stdout w
      @ measure_report (sc_label sc) (sc_iters sc) (sc_subtract sc) mean ovh" .
qed

lemma nsecs_now_calm: "triple calm nsecs_now (\<lambda>_. calm) (\<lambda>c w. False)"
  by (auto simp: triple_def calm_def nsecs_now_def sys_defs os_ok_def Let_def
      split: sys.splits prod.splits)

lemma scenario_1_calm:
  assumes "calm w"
  shows "\<exists>u w'. run_scenario (the (scenario_table 1)) w = Ret u w' \<and> stderr w' = []"
proof -
  have t: "triple calm (measure_c ''scenario_1_empty_function_call'' None act_call_empty None
      200000 True)
     (\<lambda>_ w'. \<exists>w1 mean ovh. calm w1 \<and> w' = w1\<lparr>stdout := stdout w1
         @ measure_report ''scenario_1_empty_function_call'' 200000 True mean ovh\<rparr>)
     (\<lambda>c w. False)"
    by (rule measure_c_triple [where ?P1.0 = calm and ?P2.0 = calm])
      (simp_all add: call_opt_None_triple nsecs_now_calm, simp add: triple_def act_call_empty_def)
  have rs: "run_scenario (the (scenario_table 1)) w
      = measure_c ''scenario_1_empty_function_call'' None act_call_empty None 200000 True w"
    by (simp add: run_scenario_def scenario_table_def)
  show ?thesis
  proof (cases "run_scenario (the (scenario_table 1)) w")
    case (Stop c w')
    with rs have "measure_c ''scenario_1_empty_function_call'' None act_call_empty None
        200000 True w = Stop c w'"
      by simp
    from triple_Stop [OF t assms this] show ?thesis ..
  next
    case (Ret u w')
    with rs have "measure_c ''scenario_1_empty_function_call'' None act_call_empty None
        200000 True w = Ret u w'"
      by simp
    from triple_Ret [OF t assms this] obtain w1 mean ovh where "calm w1"
      "w' = w1\<lparr>stdout := stdout w1
         @ measure_report ''scenario_1_empty_function_call'' 200000 True mean ovh\<rparr>"
      by blast
    then have "stderr w' = []"
      by (simp add: calm_def)
    with Ret show ?thesis by blast
  qed
qed

lemma calm_startup: "calm (startup w_ok)"
  by (simp add: calm_def startup_fields w_ok_def initial_world_def)

theorem main_selects_scenario_witness:
  "(\<exists>w'. main [''gettimings'', ''9''] w_ok = Ret 2 w' \<and> stdout w' = stdout w_ok
        \<and> clock_calls w' = clock_calls w_ok
        \<and> stderr w' = stderr w_ok
            @ [Err_text (''Usage: '' @ argv0 [''gettimings'', ''9''] @ '' <scenario 1..8>'')])
   \<and> (\<exists>sc. scenario_table 1 = Some sc
        \<and> main [''gettimings'', ''1''] w_ok = break_return0 (run_scenario sc (startup w_ok)))
   \<and> (\<exists>u w'. run_scenario (the (scenario_table 1)) (startup w_ok) = Ret u w'
        \<and> main [''gettimings'', ''1''] w_ok = Ret 0 w'
        \<and> (\<exists>mean ovh. stdout w' = stdout w_ok
              @ measure_report ''scenario_1_empty_function_call'' 200000 True mean ovh))"
proof -
  obtain u w' where r: "run_scenario (the (scenario_table 1)) (startup w_ok) = Ret u w'"
    using scenario_1_calm [OF calm_startup] by blast
  have t: "scenario_table 1 = Some (the (scenario_table 1))"
    by (simp add: scenario_table_def)
  have f: "sc_label (the (scenario_table 1)) = ''scenario_1_empty_function_call''"
    "sc_iters (the (scenario_table 1)) = 200000" "sc_subtract (the (scenario_table 1)) = True"
    by (simp_all add: scenario_table_def)
  from main_selects_scenario [of "[''gettimings'', ''9'']" w_ok]
  have 1: "\<exists>w'. main [''gettimings'', ''9''] w_ok = Ret 2 w' \<and> stdout w' = stdout w_ok
        \<and> clock_calls w' = clock_calls w_ok
        \<and> stderr w' = stderr w_ok
            @ [Err_text (''Usage: '' @ argv0 [''gettimings'', ''9''] @ '' <scenario 1..8>'')]"
    by (simp add: atoi_examples)
  from main_selects_scenario [of "[''gettimings'', ''1'']" w_ok]
  have 2: "\<exists>sc. scenario_table 1 = Some sc
        \<and> main [''gettimings'', ''1''] w_ok = break_return0 (run_scenario sc (startup w_ok))"
    by (simp add: atoi_examples)
  from main_selects_scenario [of "[''gettimings'', ''1'']" w_ok "the (scenario_table 1)" u w']
    r t f
  have 3: "main [''gettimings'', ''1''] w_ok = Ret 0 w'
        \<and> (\<exists>mean ovh. stdout w' = stdout w_ok
              @ measure_report ''scenario_1_empty_function_call'' 200000 True mean ovh)"
    by (simp add: atoi_examples)
  from 1 2 3 r show ?thesis by blast
qed

text \<open>
  The argument \<open>1abc\<close> is not an integer, yet it selects the first scenario: the
  process returns 0, prints a report and no usage line.
\<close>

theorem main_trailing_text_counterexample:
  "exit_status (main [''gettimings'', ''1abc''] w_ok) = 0
   \<and> stderr (final_world (main [''gettimings'', ''1abc''] w_ok)) = []
   \<and> stdout (final_world (main [''gettimings'', ''1abc''] w_ok)) \<noteq> []"
proof -
  define sc where "sc = the (scenario_table 1)"
  have t: "scenario_table 1 = Some sc"
    by (simp add: sc_def scenario_table_def)
  obtain u w' where r: "run_scenario sc (startup w_ok) = Ret u w'"
    and e: "stderr w' = []"
    using scenario_1_calm [OF calm_startup] unfolding sc_def by blast
  have m: "main [''gettimings'', ''1abc''] w_ok = Ret 0 w'"
    using r t by (simp add: main_by_table atoi_examples break_return0_def)
  have "quiet (stdout w_ok) (startup w_ok)"
    by (simp add: quiet_def startup_fields)
  from triple_Ret [OF run_scenario_quiet [OF t] this r]
  have "stdout w' \<noteq> []"
    by (auto simp: measure_report_def)
  with m e show ?thesis
    by (simp add: exit_status_def final_world_def)
qed

text \<open>
  Claim C6, amended. Wherever the program checks the answer of a system call (the clock
  read, \<open>fork\<close>, \<open>waitpid\<close>, \<open>system\<close>, \<open>mkdtemp\<close>, \<open>rmdir\<close>) and the call
  answers with its failure indicator, the function ends the process with status 1 after
  one \<open>perror\<close> line naming the call and its \<open>errno\<close>; the call is made once, and
  standard output is untouched. The one exception is \<open>waitpid\<close> failing with
  \<open>ECHILD\<close> in \<open>teardown_wait_ready\<close>. A \<open>measure\<close> that stops does so with the
  status and the world of the callback or clock read that stopped, adding nothing; and
  whenever the process ends inside \<open>main\<close>, no line of a report has been printed and
  the status is 1, or 0 in a freshly forked child.
\<close>

theorem os_failure_fatal:
  "(site_fails s w = Some e \<and> \<not> tolerated s e \<longrightarrow>
      fatal (site_name s) e (site_calls s) w (site_code s w))
   \<and> (iters \<noteq> 0 \<and> measure_c label su a td iters so w2 = Stop c w2' \<longrightarrow>
      (\<exists>w1. nsecs_now w1 = Stop c w2' \<or> call_opt su w1 = Stop c w2' \<or> a w1 = Stop c w2'
          \<or> call_opt td w1 = Stop c w2'))
   \<and> (main argv w3 = Stop c3 w3' \<longrightarrow>
      stdout w3' = stdout w3 \<and> (c3 = 1 \<or> c3 = 0 \<and> in_child w3'))"
  using site_failure_fatal [of s w e]
    measure_c_stops_where_a_call_stops [of iters label su a td so w2 c w2']
    main_Stop [of argv w3 c3 w3']
  by blast

text \<open>On the system \<open>os_fail\<close> the first \<open>fork\<close> of scenario 4 ends the process.\<close>

lemma fork_fails_in_measure:
  "measure_c ''x'' None act_fork_parent_return (Some teardown_wait_for_last_child) 1 False w_fail
     = Stop 1 (w_fail\<lparr>fork_calls := 1, errno := 11, stderr := [Err_perror ''fork'' 11]\<rparr>)"
  by (simp add: harness_defs act_fork_parent_return_def sys_defs w_fail_def os_fail_def
      initial_world_def)

lemma fork_fails_in_main:
  "main [''gettimings'', ''4''] w_fail
     = Stop 1 (w_fail\<lparr>fork_calls := 1, errno := 11, stderr := [Err_perror ''fork'' 11],
         seed48 := 0xC0FFEE\<rparr>)"
  by (simp add: main_def atoi_def isspace_def isdigit_def digit_val_def break_return0_def
      resolve_true_path_def srand48_def
      harness_defs act_fork_parent_return_def sys_defs w_fail_def os_fail_def
      initial_world_def)

theorem os_failure_fatal_witness:
  "fatal (site_name Fork_in_act4) 11 (site_calls Fork_in_act4) w_fail
      (site_code Fork_in_act4 w_fail)
   \<and> (\<exists>w1. nsecs_now w1
            = Stop 1 (w_fail\<lparr>fork_calls := 1, errno := 11, stderr := [Err_perror ''fork'' 11]\<rparr>)
        \<or> call_opt None w1
            = Stop 1 (w_fail\<lparr>fork_calls := 1, errno := 11, stderr := [Err_perror ''fork'' 11]\<rparr>)
        \<or> act_fork_parent_return w1
            = Stop 1 (w_fail\<lparr>fork_calls := 1, errno := 11, stderr := [Err_perror ''fork'' 11]\<rparr>)
        \<or> call_opt (Some teardown_wait_for_last_child) w1
            = Stop 1 (w_fail\<lparr>fork_calls := 1, errno := 11, stderr := [Err_perror ''fork'' 11]\<rparr>))
   \<and> stdout (w_fail\<lparr>fork_calls := 1, errno := 11, stderr := [Err_perror ''fork'' 11],
         seed48 := 0xC0FFEE\<rparr>) = stdout w_fail"
proof -
  have s: "site_fails Fork_in_act4 w_fail = Some 11" "\<not> tolerated Fork_in_act4 11"
    by (simp_all add: site_fails_def fork_fails_def tolerated_def w_fail_def os_fail_def
        initial_world_def)
  have nz: "(1 :: u64) \<noteq> 0" by simp
  from os_failure_fatal [of Fork_in_act4 w_fail 11 1 "''x''" None act_fork_parent_return
      "Some teardown_wait_for_last_child" False w_fail 1
      "w_fail\<lparr>fork_calls := 1, errno := 11, stderr := [Err_perror ''fork'' 11]\<rparr>"
      "[''gettimings'', ''4'']" w_fail 1
      "w_fail\<lparr>fork_calls := 1, errno := 11, stderr := [Err_perror ''fork'' 11],
         seed48 := 0xC0FFEE\<rparr>"]
    s nz fork_fails_in_measure fork_fails_in_main
  show ?thesis by blast
qed

text \<open>
  In a cycle of scenario 5 the action has reaped the child, so the \<open>waitpid\<close> of the
  tear-down answers -1 with \<open>ECHILD\<close>, and the tear-down returns all the same.
\<close>

theorem echild_in_teardown_counterexample:
  "site_fails Wait_in_teardown5 w_reaped = Some ECHILD
   \<and> returned (site_code Wait_in_teardown5 w_reaped) = Some ()"
  by (simp add: w_reaped_def final_world_def returned_def site_fails_def site_code_def
      wait_fails_def setup_waitpid_ready_def act_waitpid_ready_def teardown_wait_ready_def
      sys_defs w_ok_def os_ok_def initial_world_def Let_def ECHILD_def)

section \<open>The claims about children\<close>

text \<open>
  Claim C7. \<open>peak_children\<close> is raised by every \<open>fork\<close> to the size of the table of
  unreaped children, and the table grows nowhere else, so its final value bounds the
  table at every point of the run (the last part of the statement). For each of the
  scenarios that fork (4, 5 and 6 of the table), run with any iteration count and flag
  from a state without children, that value is at most 1, whether \<open>measure\<close> returns
  or the process ends inside it; and when \<open>measure\<close> returns, the table is empty:
  every child has been reaped.
\<close>

theorem one_child_at_a_time:
  assumes "scenario_table k = Some sc" and "4 \<le> k" and "k \<le> 6"
    and "children w = []" and "peak_children w \<le> 1"
  shows "peak_children
       (final_world (measure_c label (sc_setup sc) (sc_action sc) (sc_teardown sc) iters so w))
       \<le> 1
     \<and> (returned (measure_c label (sc_setup sc) (sc_action sc) (sc_teardown sc) iters so w)
           \<noteq> None
        \<longrightarrow> children
           (final_world (measure_c label (sc_setup sc) (sc_action sc) (sc_teardown sc) iters so w))
           = [])
     \<and> (length (children v) \<le> peak_children v \<longrightarrow>
          length (children (snd (sys_fork v))) \<le> peak_children (snd (sys_fork v))
          \<and> length (children (snd (sys_waitpid pid v)))
              \<le> peak_children (snd (sys_waitpid pid v)))"
proof -
  let ?m = "measure_c label (sc_setup sc) (sc_action sc) (sc_teardown sc) iters so w"
  have "peak_children (final_world ?m) \<le> 1
      \<and> (returned ?m \<noteq> None \<longrightarrow> children (final_world ?m) = [])"
  proof (cases "iters = 0")
    case True
    with assms show ?thesis
      by (simp add: measure_c_def final_world_def returned_def eprint_def)
  next
    case False
    from assms have "no_child w" by (simp add: no_child_def)
    with fork_scenarios_children [OF assms(1,2,3) False, of label so] show ?thesis
      by (auto simp: triple_def final_world_def returned_def peak_ok_def split: outcome.splits
          dest!: spec [of _ w])
  qed
  with peak_bounds_table(1) [of v] peak_bounds_table(2) [of v pid] show ?thesis by blast
qed

text \<open>One iteration of scenario 4 on \<open>os_ok\<close>: two children, each reaped by the tear-down.\<close>

lemma scenario_4_once:
  "measure_c ''s4'' None act_fork_parent_return (Some teardown_wait_for_last_child) 1 True w_ok
     = Ret ()
        (w_ok\<lparr>clock_calls := 4, fork_calls := 2, waitpid_calls := 2, peak_children := 1,
           sink_u64 := 100 XOR 101,
           stdout := measure_report ''s4'' 1 True (D_div (D_of_u64 7) (D_of_u64 1))
             (D_div (D_of_u64 7) (D_of_u64 1))\<rparr>)"
  by (simp add: harness_defs act_fork_parent_return_def teardown_wait_for_last_child_def
      sys_defs w_ok_def os_ok_def initial_world_def)

theorem one_child_at_a_time_witness:
  "peak_children
       (final_world (measure_c ''s4'' None act_fork_parent_return
          (Some teardown_wait_for_last_child) 1 True w_ok)) \<le> 1
   \<and> returned (measure_c ''s4'' None act_fork_parent_return
          (Some teardown_wait_for_last_child) 1 True w_ok) \<noteq> None
   \<and> children
       (final_world (measure_c ''s4'' None act_fork_parent_return
          (Some teardown_wait_for_last_child) 1 True w_ok)) = []
   \<and> length (children (snd (sys_fork w_ok))) \<le> peak_children (snd (sys_fork w_ok))
   \<and> length (children (snd (sys_waitpid 100 w_ok)))
        \<le> peak_children (snd (sys_waitpid 100 w_ok))"
proof -
  define sc where "sc = the (scenario_table 4)"
  have t: "scenario_table 4 = Some sc"
    by (simp add: sc_def scenario_table_def)
  have f: "sc_setup sc = None" "sc_action sc = act_fork_parent_return"
      "sc_teardown sc = Some teardown_wait_for_last_child"
    by (simp_all add: sc_def scenario_table_def)
  have w: "children w_ok = []" "peak_children w_ok \<le> 1"
    by (simp_all add: w_ok_def initial_world_def)
  have r: "returned (measure_c ''s4'' None act_fork_parent_return
          (Some teardown_wait_for_last_child) 1 True w_ok) \<noteq> None"
    by (simp add: scenario_4_once returned_def)
  have b: "length (children w_ok) \<le> peak_children w_ok"
    by (simp add: w_ok_def initial_world_def)
  from one_child_at_a_time [OF t _ _ w, of "''s4''" 1 True w_ok 100] r b show ?thesis
    by (simp add: f)
qed

text \<open>
  Claim C8, amended. In scenario 5 the set-up, when \<open>fork\<close> gives it a child \<open>p\<close>,
  asks for a sleep of 2 000 000 ns and records \<open>p\<close> in \<open>ready_zombie\<close>, whatever
  \<open>nanosleep\<close> answers. The action ends the process with status 1 and a \<open>perror\<close>
  line when \<open>waitpid\<close> returns anything but the recorded id; otherwise it has reaped
  exactly that child. The tear-down returns when its \<open>waitpid\<close> fails with
  \<open>ECHILD\<close> and is fatal on any other failure. Among the sites where the program
  checks the answer of a system call this is the only failure that is not fatal. (The
  answer of \<open>nanosleep\<close> is not checked at all, as the first part says.)
\<close>

theorem scenario_5_callbacks:
  "(fork_res (os w) (fork_calls w) = Done p \<and> 0 < p \<longrightarrow>
      (\<exists>w'. setup_waitpid_ready w = Ret () w' \<and> ready_zombie w' = int p
          \<and> children w' = children w @ [int p] \<and> sleeps w' = sleeps w @ [(0, 2000000)]))
   \<and> (fst (fst (sys_waitpid (ready_zombie w) w)) \<noteq> ready_zombie w \<longrightarrow>
      (\<exists>w'. act_waitpid_ready w = Stop 1 w'
          \<and> stderr w' = stderr w @ [Err_perror ''waitpid'' (errno w')]))
   \<and> (fst (fst (sys_waitpid (ready_zombie w) w)) = ready_zombie w \<and> 0 < ready_zombie w \<longrightarrow>
      (\<exists>w'. act_waitpid_ready w = Ret () w' \<and> ready_zombie w \<in> set (children w)
          \<and> children w' = remove1 (ready_zombie w) (children w)
          \<and> waitpid_calls w' = Suc (waitpid_calls w)))
   \<and> (0 < ready_zombie w \<and> wait_fails (ready_zombie w) w = Some ECHILD \<longrightarrow>
      (\<exists>w'. teardown_wait_ready w = Ret () w' \<and> stderr w' = stderr w))
   \<and> (0 < ready_zombie w \<and> wait_fails (ready_zombie w) w = Some e \<and> e \<noteq> ECHILD \<longrightarrow>
      fatal ''waitpid'' e waitpid_calls w (teardown_wait_ready w))
   \<and> (site_fails s w = Some e \<longrightarrow>
      (fatal (site_name s) e (site_calls s) w (site_code s w)
        \<longleftrightarrow> \<not> (s = Wait_in_teardown5 \<and> e = ECHILD)))"
proof (intro conjI impI)
  assume "fork_res (os w) (fork_calls w) = Done p \<and> 0 < p"
  then show "\<exists>w'. setup_waitpid_ready w = Ret () w' \<and> ready_zombie w' = int p
      \<and> children w' = children w @ [int p] \<and> sleeps w' = sleeps w @ [(0, 2000000)]"
    using setup5_forks_sleeps_records [of w p] by simp
next
  assume "fst (fst (sys_waitpid (ready_zombie w) w)) \<noteq> ready_zombie w"
  then show "\<exists>w'. act_waitpid_ready w = Stop 1 w'
      \<and> stderr w' = stderr w @ [Err_perror ''waitpid'' (errno w')]"
    by (rule act5_mismatch_fatal)
next
  assume "fst (fst (sys_waitpid (ready_zombie w) w)) = ready_zombie w \<and> 0 < ready_zombie w"
  then show "\<exists>w'. act_waitpid_ready w = Ret () w' \<and> ready_zombie w \<in> set (children w)
      \<and> children w' = remove1 (ready_zombie w) (children w)
      \<and> waitpid_calls w' = Suc (waitpid_calls w)"
    using act5_reaps_recorded [of w] by blast
next
  assume "0 < ready_zombie w \<and> wait_fails (ready_zombie w) w = Some ECHILD"
  then show "\<exists>w'. teardown_wait_ready w = Ret () w' \<and> stderr w' = stderr w"
    using teardown5_tolerates_echild [of w] by blast
next
  assume "0 < ready_zombie w \<and> wait_fails (ready_zombie w) w = Some e \<and> e \<noteq> ECHILD"
  then have "site_fails Wait_in_teardown5 w = Some e" "\<not> tolerated Wait_in_teardown5 e"
    by (simp_all add: site_fails_def tolerated_def)
  from site_failure_fatal [OF this]
  show "fatal ''waitpid'' e waitpid_calls w (teardown_wait_ready w)"
    by (simp add: site_name_def site_calls_def site_code_def)
next
  assume "site_fails s w = Some e"
  then show "fatal (site_name s) e (site_calls s) w (site_code s w)
        \<longleftrightarrow> \<not> (s = Wait_in_teardown5 \<and> e = ECHILD)"
    using site_failure_fatal [of s w e] tolerated_not_fatal [of s w e]
    by (auto simp: tolerated_def)
qed

text \<open>The example states, computed.\<close>

lemma w_forked_eq:
  "w_forked = w_ok\<lparr>fork_calls := 1, nanosleep_calls := 1, children := [100],
      peak_children := 1, sleeps := [(0, 2000000)], ready_zombie := 100\<rparr>"
  by (simp add: w_forked_def final_world_def setup_waitpid_ready_def sys_defs w_ok_def
      os_ok_def initial_world_def)

lemma w_reaped_eq:
  "w_reaped = w_ok\<lparr>fork_calls := 1, nanosleep_calls := 1, waitpid_calls := 1, children := [],
      peak_children := 1, sleeps := [(0, 2000000)], ready_zombie := 100, sink_u64 := 100\<rparr>"
  by (simp add: w_reaped_def final_world_def setup_waitpid_ready_def act_waitpid_ready_def
      sys_defs w_ok_def os_ok_def initial_world_def)

lemmas concrete_worlds = w_forked_eq w_reaped_eq w_intr_def w_fail_def os_fail_def w_ok_def
  os_ok_def initial_world_def

theorem scenario_5_callbacks_witness:
  "(\<exists>w'. setup_waitpid_ready w_ok = Ret () w' \<and> ready_zombie w' = int 100
          \<and> children w' = children w_ok @ [int 100]
          \<and> sleeps w' = sleeps w_ok @ [(0, 2000000)])
   \<and> (\<exists>w'. act_waitpid_ready w_reaped = Stop 1 w'
          \<and> stderr w' = stderr w_reaped @ [Err_perror ''waitpid'' (errno w')])
   \<and> (\<exists>w'. act_waitpid_ready w_forked = Ret () w'
          \<and> ready_zombie w_forked \<in> set (children w_forked)
          \<and> children w' = remove1 (ready_zombie w_forked) (children w_forked)
          \<and> waitpid_calls w' = Suc (waitpid_calls w_forked))
   \<and> (\<exists>w'. teardown_wait_ready w_reaped = Ret () w' \<and> stderr w' = stderr w_reaped)
   \<and> fatal ''waitpid'' EINTR waitpid_calls w_intr (teardown_wait_ready w_intr)
   \<and> (fatal (site_name Wait_in_teardown5) ECHILD (site_calls Wait_in_teardown5) w_reaped
          (site_code Wait_in_teardown5 w_reaped)
        \<longleftrightarrow> \<not> (Wait_in_teardown5 = Wait_in_teardown5 \<and> ECHILD = ECHILD))"
proof -
  have 1: "fork_res (os w_ok) (fork_calls w_ok) = Done 100 \<and> 0 < (100 :: nat)"
    by (simp add: concrete_worlds)
  have 2: "fst (fst (sys_waitpid (ready_zombie w_reaped) w_reaped)) \<noteq> ready_zombie w_reaped"
    by (simp add: concrete_worlds sys_defs)
  have 3: "fst (fst (sys_waitpid (ready_zombie w_forked) w_forked)) = ready_zombie w_forked
      \<and> 0 < ready_zombie w_forked"
    by (simp add: concrete_worlds sys_defs)
  have 4: "0 < ready_zombie w_reaped
      \<and> wait_fails (ready_zombie w_reaped) w_reaped = Some ECHILD"
    by (simp add: concrete_worlds sys_defs wait_fails_def)
  have 5: "0 < ready_zombie w_intr \<and> wait_fails (ready_zombie w_intr) w_intr = Some EINTR
      \<and> EINTR \<noteq> ECHILD"
    by (simp add: concrete_worlds sys_defs wait_fails_def EINTR_def ECHILD_def)
  have 6: "site_fails Wait_in_teardown5 w_reaped = Some ECHILD"
    by (simp add: concrete_worlds sys_defs wait_fails_def site_fails_def)
  from scenario_5_callbacks [of w_ok 100 ECHILD Wait_in_teardown5] 1
  have a: "\<exists>w'. setup_waitpid_ready w_ok = Ret () w' \<and> ready_zombie w' = int 100
          \<and> children w' = children w_ok @ [int 100]
          \<and> sleeps w' = sleeps w_ok @ [(0, 2000000)]"
    by blast
  from scenario_5_callbacks [of w_reaped 100 ECHILD Wait_in_teardown5] 2 4 6
  have b: "\<exists>w'. act_waitpid_ready w_reaped = Stop 1 w'
          \<and> stderr w' = stderr w_reaped @ [Err_perror ''waitpid'' (errno w')]"
    and d: "\<exists>w'. teardown_wait_ready w_reaped = Ret () w' \<and> stderr w' = stderr w_reaped"
    and f: "fatal (site_name Wait_in_teardown5) ECHILD (site_calls Wait_in_teardown5) w_reaped
          (site_code Wait_in_teardown5 w_reaped)
        \<longleftrightarrow> \<not> (Wait_in_teardown5 = Wait_in_teardown5 \<and> ECHILD = ECHILD)"
    by blast+
  from scenario_5_callbacks [of w_forked 100 ECHILD Wait_in_teardown5] 3
  have c: "\<exists>w'. act_waitpid_ready w_forked = Ret () w'
          \<and> ready_zombie w_forked \<in> set (children w_forked)
          \<and> children w' = remove1 (ready_zombie w_forked) (children w_forked)
          \<and> waitpid_calls w' = Suc (waitpid_calls w_forked)"
    by blast
  from scenario_5_callbacks [of w_intr 100 EINTR Wait_in_teardown5] 5
  have e: "fatal ''waitpid'' EINTR waitpid_calls w_intr (teardown_wait_ready w_intr)"
    by blast
  from a b c d e f show ?thesis by blast
qed

text \<open>
  A second failure of a system call that is not fatal: \<open>nanosleep\<close> returns -1 in the
  set-up of scenario 5, and the set-up returns as if nothing had happened.
\<close>

theorem nanosleep_failure_ignored_counterexample:
  "fst (sys_nanosleep (0, 2000000) (snd (sys_fork w_nosleep))) = - 1
   \<and> returned (setup_waitpid_ready w_nosleep) = Some ()"
  by (simp add: w_nosleep_def returned_def setup_waitpid_ready_def sys_defs os_ok_def
      initial_world_def)

text \<open>
  Claim C10, amended. A register holds -1 or a process id, and a tear-down that returns
  leaves its register at -1. Every cycle of scenario 4 and of scenario 5, of any of the
  three phases, that starts with its register clear and runs to its end leaves it clear,
  so no cycle sees a process id of an earlier one. The action of scenario 5 leaves
  \<open>ready_zombie\<close> as it is: in a warm-up or timed cycle that starts without children
  the tear-down therefore calls \<open>waitpid\<close> on the id the action has reaped, and the
  call fails (with \<open>ECHILD\<close>, or \<open>EINTR\<close> when interrupted). In an overhead cycle
  no action runs between the set-up and the tear-down: there the \<open>waitpid\<close> of the
  tear-down finds the child of the set-up in the table, does not fail, and reaps it.
\<close>

theorem child_registers:
  "((last_child w = - 1 \<or> 0 < last_child w) \<and> teardown_wait_for_last_child w = Ret u w'
      \<longrightarrow> last_child w' = - 1)
   \<and> ((ready_zombie w = - 1 \<or> 0 < ready_zombie w) \<and> teardown_wait_ready w = Ret u w'
      \<longrightarrow> ready_zombie w' = - 1)
   \<and> triple (reg_clear last_child)
        (warm_cycle None act_fork_parent_return (Some teardown_wait_for_last_child) u)
        (\<lambda>_. reg_clear last_child) any_stop
   \<and> triple (reg_clear last_child)
        (timed_cycle None act_fork_parent_return (Some teardown_wait_for_last_child) tot)
        (\<lambda>_. reg_clear last_child) any_stop
   \<and> triple (reg_clear last_child)
        (overhead_cycle None (Some teardown_wait_for_last_child) tot)
        (\<lambda>_. reg_clear last_child) any_stop
   \<and> triple (reg_clear ready_zombie)
        (warm_cycle (Some setup_waitpid_ready) act_waitpid_ready (Some teardown_wait_ready) u)
        (\<lambda>_. reg_clear ready_zombie) any_stop
   \<and> triple (reg_clear ready_zombie)
        (timed_cycle (Some setup_waitpid_ready) act_waitpid_ready (Some teardown_wait_ready) tot)
        (\<lambda>_. reg_clear ready_zombie) any_stop
   \<and> triple (reg_clear ready_zombie)
        (overhead_cycle (Some setup_waitpid_ready) (Some teardown_wait_ready) tot)
        (\<lambda>_. reg_clear ready_zombie) any_stop
   \<and> (act_waitpid_ready w = Ret u w' \<longrightarrow> ready_zombie w' = ready_zombie w)
   \<and> (children w = [] \<and> setup_waitpid_ready w = Ret u w1 \<and> act_waitpid_ready w1 = Ret u w2
      \<longrightarrow> 0 < ready_zombie w2 \<and> ready_zombie w2 \<notin> set (children w2)
          \<and> (wait_fails (ready_zombie w2) w2 = Some ECHILD
              \<or> wait_fails (ready_zombie w2) w2 = Some EINTR))
   \<and> (children w = [] \<and> setup_waitpid_ready w = Ret u w1 \<and> teardown_wait_ready w1 = Ret u w3
      \<longrightarrow> children w1 = [ready_zombie w1] \<and> wait_fails (ready_zombie w1) w1 = None
          \<and> children w3 = [])"
  using teardown4_clears [of w u w'] teardown5_clears [of w u w']
    scenario_4_cycles_clear(1) [of u] scenario_4_cycles_clear(2,3) [of tot]
    scenario_5_cycles_clear(1) [of u] scenario_5_cycles_clear(2,3) [of tot]
    act5_keeps_register [of w u w'] scenario_5_reissued_wait [of w u w1 u w2]
    scenario_5_overhead_reaps [of w u w1 u w3]
  by blast

text \<open>The example runs on \<open>os_ok\<close>.\<close>

lemma w_act4_eq:
  "w_act4 = w_ok\<lparr>fork_calls := 1, children := [100], peak_children := 1, last_child := 100,
      sink_u64 := 100\<rparr>"
  by (simp add: w_act4_def final_world_def act_fork_parent_return_def sys_defs w_ok_def
      os_ok_def initial_world_def)

lemma example_runs:
  "\<exists>w'. teardown_wait_for_last_child w_act4 = Ret () w'"
  "\<exists>w'. teardown_wait_ready w_reaped = Ret () w'"
  "\<exists>w'. warm_cycle None act_fork_parent_return (Some teardown_wait_for_last_child) () w_ok
      = Ret () w'"
  "\<exists>tot w'. overhead_cycle (Some setup_waitpid_ready) (Some teardown_wait_ready) 0 w_ok
      = Ret tot w'"
  "setup_waitpid_ready w_ok = Ret () w_forked"
  "act_waitpid_ready w_forked = Ret () w_reaped"
  "\<exists>w'. teardown_wait_ready w_forked = Ret () w'"
  by (simp_all add: w_act4_eq concrete_worlds harness_defs teardown_wait_for_last_child_def
      teardown_wait_ready_def act_fork_parent_return_def setup_waitpid_ready_def
      act_waitpid_ready_def sys_defs ECHILD_def)

theorem child_registers_witness:
  "(\<exists>w'. teardown_wait_for_last_child w_act4 = Ret () w' \<and> last_child w' = - 1)
   \<and> (\<exists>w'. teardown_wait_ready w_reaped = Ret () w' \<and> ready_zombie w' = - 1)
   \<and> (\<exists>w'. warm_cycle None act_fork_parent_return (Some teardown_wait_for_last_child) ()
          w_ok = Ret () w' \<and> reg_clear last_child w')
   \<and> (\<exists>tot w'. overhead_cycle (Some setup_waitpid_ready) (Some teardown_wait_ready) 0
          w_ok = Ret tot w' \<and> reg_clear ready_zombie w')
   \<and> (act_waitpid_ready w_forked = Ret () w_reaped
        \<and> ready_zombie w_reaped = ready_zombie w_forked)
   \<and> (setup_waitpid_ready w_ok = Ret () w_forked
        \<and> 0 < ready_zombie w_reaped \<and> ready_zombie w_reaped \<notin> set (children w_reaped)
        \<and> (wait_fails (ready_zombie w_reaped) w_reaped = Some ECHILD
            \<or> wait_fails (ready_zombie w_reaped) w_reaped = Some EINTR))
   \<and> (\<exists>w3. teardown_wait_ready w_forked = Ret () w3
        \<and> children w_forked = [ready_zombie w_forked]
        \<and> wait_fails (ready_zombie w_forked) w_forked = None \<and> children w3 = [])"
proof -
  have c: "children w_ok = []" "reg_clear last_child w_ok" "reg_clear ready_zombie w_ok"
    "last_child w_act4 = - 1 \<or> 0 < last_child w_act4"
    "ready_zombie w_reaped = - 1 \<or> 0 < ready_zombie w_reaped"
    by (simp_all add: w_act4_eq concrete_worlds reg_clear_def)
  obtain wa where a: "teardown_wait_for_last_child w_act4 = Ret () wa"
    using example_runs(1) by blast
  obtain wb where b: "teardown_wait_ready w_reaped = Ret () wb"
    using example_runs(2) by blast
  obtain wc where wc: "warm_cycle None act_fork_parent_return
      (Some teardown_wait_for_last_child) () w_ok = Ret () wc"
    using example_runs(3) by blast
  obtain tot wd where wd: "overhead_cycle (Some setup_waitpid_ready) (Some teardown_wait_ready)
      0 w_ok = Ret tot wd"
    using example_runs(4) by blast
  obtain w3 where g: "teardown_wait_ready w_forked = Ret () w3"
    using example_runs(7) by blast
  note s = example_runs(5) and r = example_runs(6)
  from child_registers [where w = w_act4 and u = "()" and w' = wa] a c(4)
  have 1: "last_child wa = - 1" by blast
  from child_registers [where w = w_reaped and u = "()" and w' = wb] b c(5)
  have 2: "ready_zombie wb = - 1" by blast
  from child_registers [where w = w_forked and u = "()" and w' = w_reaped and tot = 0]
  have t1: "triple (reg_clear last_child)
        (warm_cycle None act_fork_parent_return (Some teardown_wait_for_last_child) ())
        (\<lambda>_. reg_clear last_child) any_stop"
    and t2: "triple (reg_clear ready_zombie)
        (overhead_cycle (Some setup_waitpid_ready) (Some teardown_wait_ready) 0)
        (\<lambda>_. reg_clear ready_zombie) any_stop"
    and 5: "act_waitpid_ready w_forked = Ret () w_reaped
        \<longrightarrow> ready_zombie w_reaped = ready_zombie w_forked"
    by blast+
  from child_registers [where w = w_ok and u = "()" and ?w1.0 = w_forked and ?w2.0 = w_reaped
      and ?w3.0 = w3] c(1) s r g
  have 6: "0 < ready_zombie w_reaped \<and> ready_zombie w_reaped \<notin> set (children w_reaped)
        \<and> (wait_fails (ready_zombie w_reaped) w_reaped = Some ECHILD
            \<or> wait_fails (ready_zombie w_reaped) w_reaped = Some EINTR)"
    and 7: "children w_forked = [ready_zombie w_forked]
        \<and> wait_fails (ready_zombie w_forked) w_forked = None \<and> children w3 = []"
    by blast+
  from triple_Ret [OF t1 c(2) wc] have 3: "reg_clear last_child wc" .
  from triple_Ret [OF t2 c(3) wd] have 4: "reg_clear ready_zombie wd" .
  from a b wc wd g s r 1 2 3 4 5 6 7 show ?thesis by blast
qed

text \<open>
  One overhead cycle of scenario 5: one \<open>fork\<close> and one \<open>waitpid\<close>, that of the
  tear-down; \<open>errno\<close> is still 0 and the table of children is empty again. The
  tear-down has not called \<open>waitpid\<close> on a reaped id, and \<open>ECHILD\<close> played no part.
\<close>

theorem overhead_teardown_reaps_counterexample:
  "returned overhead_cycle_5 \<noteq> None
   \<and> fork_calls w_overhead = 1 \<and> waitpid_calls w_overhead = 1
   \<and> errno w_overhead = 0 \<and> children w_overhead = []
   \<and> wait_fails (ready_zombie w_forked) w_forked = None"
  by (simp add: w_overhead_def overhead_cycle_5_def returned_def final_world_def concrete_worlds
      harness_defs teardown_wait_ready_def setup_waitpid_ready_def wait_fails_def sys_defs)

section \<open>The claim about the helper\<close>






end
